theory Spec2Isabelle
  imports Complex_Main
begin

section \<open>Video capture session control of the Playwright MCP server\<close>

text \<open>
  A shallow embedding of \<^verbatim>\<open>src/tools/video.ts\<close> (the overlay recording tools) and of
  the video part of the \<^verbatim>\<open>Context\<close> class (\<^verbatim>\<open>context.ts\<close>): the global
  \<^verbatim>\<open>videoRecordingState\<close> record, the transition validation, the helper
  \<^verbatim>\<open>stopRecordingInternal\<close>, the recording timeout, the three tool handlers, and
  \<^verbatim>\<open>startVideoRecording\<close> / \<^verbatim>\<open>stopVideoRecording\<close>.

  A handler mutates the global record and the context and may throw in the middle: every
  handler of the model returns its result (an error or a value) together with the state it
  leaves behind. What the browser, the file system and the clock answer is an input of the
  handler (the record \<open>env\<close>). Handlers run one at a time: the interleaving of an
  \<^verbatim>\<open>await\<close> with the timeout's callback is not part of the model.
\<close>

subsection \<open>Data\<close>

datatype RecordingState = Idle | Recording | Stopped

datatype OverlayPosition = TopLeft | TopRight | BottomLeft | BottomRight

datatype Action = Record | Pause | Resume | Stop

text \<open>
  Every \<^verbatim>\<open>throw\<close> of the modelled code is a constructor. \<open>EnvFailure\<close> is an
  exception raised by a call into Playwright or the file system; its argument names the call.
\<close>

datatype error =
    OverlayMustBeEnabled
  | InvalidStateTransition RecordingState RecordingState
  | NoActiveRecording
  | CanOnlyResumeFromStopped
  | OVERLAY_NOT_ENABLED
  | OVERLAY_ALREADY_ENABLED
  | CONTEXT_CLOSED
  | NoCurrentSnapshot
  | VideoRecordingAlreadyEnabled
  | VideoRecordingNotEnabled
  | FailedToStopDuringPause
  | EnvFailure string

subsection \<open>The transition validation\<close>

text \<open>
  \<^verbatim>\<open>validTransitions\<close>, the table inside \<^verbatim>\<open>validateStateTransition\<close>.
\<close>

fun validTransitions :: "RecordingState \<Rightarrow> RecordingState list" where
  "validTransitions Idle = [Recording]"
| "validTransitions Recording = [Stopped, Recording]"
| "validTransitions Stopped = [Recording]"

text \<open>
  \<^verbatim>\<open>validateStateTransition(currentState, targetState, action)\<close>; its first argument
  here is the global \<^verbatim>\<open>videoRecordingState.overlayEnabled\<close> that the function reads.
  The checks are in the source's order.
\<close>

definition validateStateTransition ::
    "bool \<Rightarrow> RecordingState \<Rightarrow> RecordingState \<Rightarrow> Action \<Rightarrow> error + unit" where
  "validateStateTransition overlayEnabled currentState targetState action =
     (if \<not> overlayEnabled then Inl OverlayMustBeEnabled
      else if action = Record then Inr ()
      else if action = Stop \<and> currentState = Stopped then Inr ()
      else if targetState \<notin> set (validTransitions currentState)
        then Inl (InvalidStateTransition currentState targetState)
      else if (action = Stop \<or> action = Pause) \<and> currentState \<noteq> Recording
        then Inl NoActiveRecording
      else if action = Resume \<and> currentState \<noteq> Stopped
        then Inl CanOnlyResumeFromStopped
      else Inr ())"

text \<open>
  The \<^verbatim>\<open>switch\<close> at the head of \<^verbatim>\<open>videoOverlayControl\<close> that picks the
  target state of an action.
\<close>

fun targetState :: "Action \<Rightarrow> RecordingState" where
  "targetState Record = Recording"
| "targetState Pause = Stopped"
| "targetState Stop = Stopped"
| "targetState Resume = Recording"

text \<open>
  The reasons of the specification's transition table, and the reason each error message
  of \<^verbatim>\<open>validateStateTransition\<close> stands for: "No active recording to stop/pause"
  is \<open>NoActiveCapture\<close>; "Invalid state transition" and "Can only resume from stopped
  state" are \<open>InvalidTransition\<close>.
\<close>

datatype reason = OverlayNotEnabled | InvalidTransition | NoActiveCapture | OtherFailure

fun reasonOf :: "error \<Rightarrow> reason" where
  "reasonOf OverlayMustBeEnabled = OverlayNotEnabled"
| "reasonOf OVERLAY_NOT_ENABLED = OverlayNotEnabled"
| "reasonOf (InvalidStateTransition c t) = InvalidTransition"
| "reasonOf CanOnlyResumeFromStopped = InvalidTransition"
| "reasonOf NoActiveRecording = NoActiveCapture"
| "reasonOf e = OtherFailure"

text \<open>
  The decision of the validation for a state and an action, as the control handler asks
  for it: \<open>None\<close> is acceptance.
\<close>

definition decision :: "RecordingState \<Rightarrow> Action \<Rightarrow> reason option" where
  "decision current action =
     (case validateStateTransition True current (targetState action) action of
        Inl e \<Rightarrow> Some (reasonOf e)
      | Inr u \<Rightarrow> None)"

subsection \<open>The browser context of the \<^verbatim>\<open>Context\<close> class\<close>

text \<open>
  \<^verbatim>\<open>recordVideo\<close> of Playwright's context options: the capture descriptor.
\<close>

record RecordVideo =
  dir :: string
  videoSize :: "nat \<times> nat"

definition DEFAULT_VIDEO_SIZE :: "nat \<times> nat" where
  "DEFAULT_VIDEO_SIZE = (800, 600)"

text \<open>
  The calls that reach the browser, in the order they are made. They are kept in the
  context (field \<open>effects\<close>) so that a property can speak about what was done to the
  environment, and in what order.
\<close>

datatype effect =
    CloseContext
  | CreateContext "RecordVideo option"
  | NewPage
  | Goto string
  | VideoPath
  | Wait nat
  | InjectOverlay nat OverlayPosition "string option"
  | OnPageInject OverlayPosition "string option"
  | UpdateOverlay RecordingState

text \<open>
  What the world outside answers while one handler runs. \<open>now\<close> is the clock
  (\<^verbatim>\<open>new Date()\<close>, in milliseconds; the reads of one handler give one value) and
  \<open>isoNow\<close> its \<^verbatim>\<open>toISOString()\<close>. \<open>outputFile\<close> is the function of that
  name of \<^verbatim>\<open>config.ts\<close> (\<open>None\<close>: it throws) and \<open>dirname\<close> is
  \<^verbatim>\<open>path.dirname\<close>; neither is part of the modelled files, so both are parameters.
  \<open>configRecordVideo\<close> is \<^verbatim>\<open>config.browser.contextOptions.recordVideo\<close>.
  \<open>initialPages\<close> are the URLs of the pages that a context made by the factory already
  has. The other fields say whether a call succeeds, or what it returns.
\<close>

record env =
  now :: int
  isoNow :: string
  uuid :: string
  outputFile :: "string \<Rightarrow> string option"
  dirname :: "string \<Rightarrow> string"
  mkdirOk :: bool
  configRecordVideo :: "RecordVideo option"
  closeOk :: bool
  createOk :: bool
  initialPages :: "string list"
  newPageOk :: bool
  gotoOk :: "string \<Rightarrow> bool"
  videoFile :: "string option"
  injectOk :: bool
  statSize :: "nat option"

text \<open>
  A live Playwright browser context, with the \<^verbatim>\<open>recordVideo\<close> option it was
  created with. Its pages are the tabs of the \<^verbatim>\<open>Context\<close>: the class adds a tab
  for every page of the browser context (\<^verbatim>\<open>_onPageCreated\<close>).
\<close>

datatype BrowserContext = BrowserContext (recordVideo: "RecordVideo option")

text \<open>
  The fields of \<^verbatim>\<open>Context\<close> that the video code reads or writes. A tab is the URL
  of its page; \<open>currentTab\<close> is an index into \<open>tabs\<close>. \<open>None\<close> in
  \<open>browserContextPromise\<close> is \<^verbatim>\<open>undefined\<close>.
\<close>

record "context" =
  videoRecordingEnabled :: bool
  videoRecordingOptions :: "RecordVideo option"
  browserContextPromise :: "BrowserContext option"
  tabs :: "string list"
  currentTab :: "nat option"
  effects :: "effect list"

definition did :: "effect \<Rightarrow> context \<Rightarrow> context" where
  "did x c = c\<lparr>effects := effects c @ [x]\<rparr>"

definition onPageCreated :: "string \<Rightarrow> context \<Rightarrow> context" where
  "onPageCreated url c =
     c\<lparr>tabs := tabs c @ [url],
       currentTab := (case currentTab c of None \<Rightarrow> Some (length (tabs c)) | Some t \<Rightarrow> Some t)\<rparr>"

definition currentTabOrDie :: "context \<Rightarrow> error + nat" where
  "currentTabOrDie c = (case currentTab c of None \<Rightarrow> Inl NoCurrentSnapshot | Some t \<Rightarrow> Inr t)"

text \<open>
  \<^verbatim>\<open>_setupBrowserContext\<close>: the factory creates the context, with the recording
  options in place of the configured ones while recording is enabled, and every page the
  new context has becomes a tab. The request interception and the tracing that follow the
  creation count as part of it: \<open>createOk\<close> says whether all of it succeeds.
\<close>

definition setupBrowserContext :: "env \<Rightarrow> context \<Rightarrow> (error + unit) \<times> context" where
  "setupBrowserContext e c =
     (let rv = (if videoRecordingEnabled c \<and> videoRecordingOptions c \<noteq> None
                then videoRecordingOptions c else configRecordVideo e);
          c1 = did (CreateContext rv) c
      in if createOk e
         then (Inr (), fold onPageCreated (initialPages e)
                         (c1\<lparr>browserContextPromise := Some (BrowserContext rv)\<rparr>))
         else (Inl (EnvFailure ''createContext''), c1))"

definition ensureBrowserContext :: "env \<Rightarrow> context \<Rightarrow> (error + unit) \<times> context" where
  "ensureBrowserContext e c =
     (case browserContextPromise c of
        None \<Rightarrow> setupBrowserContext e c
      | Some bc \<Rightarrow> (Inr (), c))"

text \<open>\<^verbatim>\<open>browserContext.newPage()\<close>, whose page event runs \<^verbatim>\<open>_onPageCreated\<close>.\<close>

definition newPage :: "env \<Rightarrow> context \<Rightarrow> (error + unit) \<times> context" where
  "newPage e c =
     (if newPageOk e then (Inr (), onPageCreated ''about:blank'' (did NewPage c))
      else (Inl (EnvFailure ''newPage''), c))"

text \<open>
  \<^verbatim>\<open>page.goto(url)\<close> on the page created last: its tab then has this URL.
\<close>

definition goto :: "env \<Rightarrow> string \<Rightarrow> context \<Rightarrow> (error + unit) \<times> context" where
  "goto e url c =
     (if gotoOk e url
      then (Inr (), did (Goto url) (c\<lparr>tabs := (tabs c)[length (tabs c) - 1 := url]\<rparr>))
      else (Inl (EnvFailure ''goto''), did (Goto url) c))"

definition ensureTab :: "env \<Rightarrow> context \<Rightarrow> (error + unit) \<times> context" where
  "ensureTab e c =
     (case ensureBrowserContext e c of
        (Inl err, c1) \<Rightarrow> (Inl err, c1)
      | (Inr u, c1) \<Rightarrow> (if currentTab c1 = None then newPage e c1 else (Inr (), c1)))"

definition closeBrowserContext :: "env \<Rightarrow> context \<Rightarrow> (error + unit) \<times> context" where
  "closeBrowserContext e c =
     (case browserContextPromise c of
        None \<Rightarrow> (Inr (), c)
      | Some bc \<Rightarrow>
          (if closeOk e
           then (Inr (), (did CloseContext c)
                   \<lparr>browserContextPromise := None, tabs := [], currentTab := None\<rparr>)
           else (Inl (EnvFailure ''close''), did CloseContext c)))"

text \<open>The loop of \<^verbatim>\<open>startVideoRecording\<close> that restores the saved URLs.\<close>

fun restoreTabs :: "env \<Rightarrow> string list \<Rightarrow> context \<Rightarrow> (error + unit) \<times> context" where
  "restoreTabs e [] c = (Inr (), c)"
| "restoreTabs e (url # urls) c =
     (case newPage e c of
        (Inl err, c1) \<Rightarrow> (Inl err, c1)
      | (Inr u, c1) \<Rightarrow>
          (case goto e url c1 of
             (Inl err, c2) \<Rightarrow> (Inl err, c2)
           | (Inr u, c2) \<Rightarrow> restoreTabs e urls c2))"

definition currentUrls :: "context \<Rightarrow> string list" where
  "currentUrls c = filter (\<lambda>url. url \<noteq> [] \<and> url \<noteq> ''about:blank'') (tabs c)"

definition startVideoRecording ::
    "env \<Rightarrow> RecordVideo \<Rightarrow> context \<Rightarrow> (error + unit) \<times> context" where
  "startVideoRecording e recordVideoOptions c =
     (if videoRecordingEnabled c then (Inl VideoRecordingAlreadyEnabled, c)
      else
        let urls = currentUrls c;
            c1 = c\<lparr>videoRecordingOptions := Some recordVideoOptions,
                   videoRecordingEnabled := True\<rparr>
        in case closeBrowserContext e c1 of
             (Inl err, c2) \<Rightarrow> (Inl err, c2)
           | (Inr u, c2) \<Rightarrow>
               (case ensureBrowserContext e c2 of
                  (Inl err, c3) \<Rightarrow> (Inl err, c3)
                | (Inr u, c3) \<Rightarrow>
                    (if urls \<noteq> [] then restoreTabs e urls c3 else newPage e c3)))"

text \<open>
  \<^verbatim>\<open>stopVideoRecording\<close>. Its last part, after the browser context is dealt with:
  the reset of the two recording fields and the wait of one second.
\<close>

definition resetVideoRecording :: "string option \<Rightarrow> context \<Rightarrow> (error + string option) \<times> context" where
  "resetVideoRecording videoPath c =
     (Inr videoPath,
      did (Wait 1000) (c\<lparr>videoRecordingEnabled := False, videoRecordingOptions := None\<rparr>))"

definition closeAndReset ::
    "env \<Rightarrow> string option \<Rightarrow> context \<Rightarrow> (error + string option) \<times> context" where
  "closeAndReset e videoPath c =
     (case closeBrowserContext e c of
        (Inl err, c1) \<Rightarrow> (Inl err, c1)
      | (Inr u, c1) \<Rightarrow> resetVideoRecording videoPath c1)"

definition stopVideoRecording :: "env \<Rightarrow> context \<Rightarrow> (error + string option) \<times> context" where
  "stopVideoRecording e c =
     (if \<not> videoRecordingEnabled c then (Inl VideoRecordingNotEnabled, c)
      else
        (case browserContextPromise c of
           None \<Rightarrow> resetVideoRecording None c
         | Some bc \<Rightarrow>
             (if tabs c \<noteq> [] \<and> recordVideo bc \<noteq> None
              then (case videoFile e of
                      None \<Rightarrow> (Inl (EnvFailure ''video.path''), did VideoPath c)
                    | Some p \<Rightarrow> closeAndReset e (Some p) (did VideoPath c))
              else closeAndReset e None c)))"

text \<open>
  \<^verbatim>\<open>injectRecordingOverlay\<close>: \<^verbatim>\<open>addInitScript\<close> may throw; the immediate
  \<^verbatim>\<open>evaluate\<close> is inside a \<^verbatim>\<open>try\<close>.
\<close>

definition injectRecordingOverlay ::
    "env \<Rightarrow> nat \<Rightarrow> OverlayPosition \<Rightarrow> string option \<Rightarrow> context \<Rightarrow> (error + unit) \<times> context" where
  "injectRecordingOverlay e tab position sid c =
     (if injectOk e then (Inr (), did (InjectOverlay tab position sid) c)
      else (Inl (EnvFailure ''addInitScript''), c))"

subsection \<open>The global recording state\<close>

text \<open>
  \<^verbatim>\<open>videoRecordingState\<close>. An optional field is an \<open>option\<close>; a time is in
  milliseconds. \<open>recordingTimeout\<close> is the handle of the timer, \<open>contextRef\<close> says
  whether the reference is set. The fields \<^verbatim>\<open>config\<close> (never written) and
  \<^verbatim>\<open>browserContext\<close> (written, never read) are left out.
\<close>

record videoRecordingState =
  isRecording :: bool
  startTime :: "int option"
  filename :: "string option"
  videoPath :: "string option"
  overlayEnabled :: bool
  overlayPosition :: OverlayPosition
  overlayState :: RecordingState
  sessionId :: "string option"
  stopTime :: "int option"
  recordingTimeout :: "nat option"
  contextRef :: bool

definition initialState :: videoRecordingState where
  "initialState =
     \<lparr>isRecording = False, startTime = None, filename = None, videoPath = None,
      overlayEnabled = False, overlayPosition = TopRight, overlayState = Idle,
      sessionId = None, stopTime = None, recordingTimeout = None, contextRef = False\<rparr>"

text \<open>
  The process: the global record, the context, and the timers of the runtime that are
  pending (\<^verbatim>\<open>setTimeout\<close> handles; \<open>nextTimer\<close> is the next handle).
\<close>

record world =
  vrs :: videoRecordingState
  ctx :: "context"
  timers :: "nat list"
  nextTimer :: nat

definition initialContext :: "context" where
  "initialContext =
     \<lparr>videoRecordingEnabled = False, videoRecordingOptions = None,
      browserContextPromise = None, tabs = [], currentTab = None, effects = []\<rparr>"

definition initialWorld :: world where
  "initialWorld = \<lparr>vrs = initialState, ctx = initialContext, timers = [], nextTimer = 0\<rparr>"

text \<open>
  The three lines that \<^verbatim>\<open>stopRecordingInternal\<close>, the pause handler and the stop
  handler start with: clear the timeout if there is one.
\<close>

definition clearRecordingTimeout :: "world \<Rightarrow> world" where
  "clearRecordingTimeout w =
     (case recordingTimeout (vrs w) of
        None \<Rightarrow> w
      | Some t \<Rightarrow> w\<lparr>vrs := (vrs w)\<lparr>recordingTimeout := None\<rparr>,
                    timers := removeAll t (timers w)\<rparr>)"

text \<open>
  \<^verbatim>\<open>updateOverlayState\<close>: the script runs in the page inside a \<^verbatim>\<open>try\<close>, so the
  call never throws.
\<close>

definition updateOverlayState :: "RecordingState \<Rightarrow> world \<Rightarrow> world" where
  "updateOverlayState st w = w\<lparr>ctx := did (UpdateOverlay st) (ctx w)\<rparr>"

text \<open>
  \<^verbatim>\<open>stopRecordingInternal\<close>. The error of \<^verbatim>\<open>stopVideoRecording\<close> is caught.
  The last block asks the context for \<^verbatim>\<open>currentTab\<close>, a member that the class
  \<^verbatim>\<open>Context\<close> does not have, so the optional call yields \<^verbatim>\<open>undefined\<close> and
  no overlay update is made.
\<close>

definition truthy :: "string option \<Rightarrow> string option" where
  "truthy r = (case r of None \<Rightarrow> None | Some p \<Rightarrow> (if p = [] then None else Some p))"

definition stopRecordingInternal :: "env \<Rightarrow> world \<Rightarrow> string option \<times> world" where
  "stopRecordingInternal e w =
     (let w1 = clearRecordingTimeout w
      in if isRecording (vrs w1)
         then (case stopVideoRecording e (ctx w1) of
                 (r, c1) \<Rightarrow>
                   ((case r of Inl err \<Rightarrow> None | Inr stopResult \<Rightarrow> truthy stopResult),
                    w1\<lparr>vrs := (vrs w1)\<lparr>isRecording := False, overlayState := Stopped,
                                        stopTime := Some (now e)\<rparr>,
                       ctx := c1\<rparr>))
         else (None, w1))"

text \<open>
  \<^verbatim>\<open>startRecordingTimeout\<close>, and the callback of the timer. The runtime takes a timer
  that fires out of the pending ones before it runs the callback.
\<close>

definition startRecordingTimeout :: "world \<Rightarrow> world" where
  "startRecordingTimeout w =
     w\<lparr>vrs := (vrs w)\<lparr>contextRef := True, recordingTimeout := Some (nextTimer w)\<rparr>,
       timers := (case recordingTimeout (vrs w) of
                    None \<Rightarrow> timers w
                  | Some t \<Rightarrow> removeAll t (timers w)) @ [nextTimer w],
       nextTimer := Suc (nextTimer w)\<rparr>"

definition timeoutFired :: "env \<Rightarrow> nat \<Rightarrow> world \<Rightarrow> world" where
  "timeoutFired e t w =
     (if t \<in> set (timers w)
      then (let w1 = w\<lparr>timers := removeAll t (timers w)\<rparr>
            in if contextRef (vrs w1) then snd (stopRecordingInternal e w1) else w1)
      else w)"

subsection \<open>Starting a capture\<close>

text \<open>
  The record handler, the resume handler and the auto-start of the enable handler each
  contain the same lines, from the timestamp of the file name to the update of the state;
  they are written once here. \<open>position\<close> and \<open>sid\<close> are the overlay position and the
  session id that the lines inject.
\<close>

definition timestamp :: "env \<Rightarrow> string" where
  "timestamp e = map (\<lambda>ch. if ch = CHR '':'' \<or> ch = CHR ''.'' then CHR ''-'' else ch) (isoNow e)"

definition recordingFilename :: "env \<Rightarrow> string" where
  "recordingFilename e = ''overlay-recording-'' @ timestamp e @ ''.webm''"

definition startNewRecording ::
    "env \<Rightarrow> OverlayPosition \<Rightarrow> string option \<Rightarrow> world \<Rightarrow> (error + unit) \<times> world" where
  "startNewRecording e position sid w =
     (let fname = recordingFilename e
      in case outputFile e fname of
           None \<Rightarrow> (Inl (EnvFailure ''outputFile''), w)
         | Some videoFilePath \<Rightarrow>
             (if \<not> mkdirOk e then (Inl (EnvFailure ''mkdir''), w)
              else
                (case startVideoRecording e
                        \<lparr>dir = dirname e videoFilePath, videoSize = DEFAULT_VIDEO_SIZE\<rparr> (ctx w) of
                   (Inl err, c1) \<Rightarrow> (Inl err, w\<lparr>ctx := c1\<rparr>)
                 | (Inr u, c1) \<Rightarrow>
                     (case currentTabOrDie c1 of
                        Inl err \<Rightarrow> (Inl err, w\<lparr>ctx := c1\<rparr>)
                      | Inr freshTab \<Rightarrow>
                          (case injectRecordingOverlay e freshTab position sid c1 of
                             (Inl err, c2) \<Rightarrow> (Inl err, w\<lparr>ctx := c2\<rparr>)
                           | (Inr u, c2) \<Rightarrow>
                               (Inr (),
                                w\<lparr>vrs := (vrs w)\<lparr>isRecording := True,
                                                  startTime := Some (now e),
                                                  filename := Some fname,
                                                  videoPath := Some videoFilePath,
                                                  overlayState := Recording\<rparr>,
                                  ctx := did (OnPageInject position sid) c2\<rparr>))))))"

text \<open>
  The auto-stop in front of the record handler and of the auto-start: stop through the
  helper, then set the state to idle.
\<close>

definition autoStop :: "env \<Rightarrow> world \<Rightarrow> world" where
  "autoStop e w =
     (if isRecording (vrs w)
      then (let w1 = snd (stopRecordingInternal e w)
            in w1\<lparr>vrs := (vrs w1)\<lparr>overlayState := Idle\<rparr>\<rparr>)
      else w)"

subsection \<open>The control handler\<close>

text \<open>
  What \<^verbatim>\<open>videoOverlayControl\<close> answers: the values that its text is built from.
\<close>

record response =
  previousState :: RecordingState
  currentState :: RecordingState
  r_videoPath :: "string option"
  r_duration :: "real option"
  r_message :: string

definition seconds :: "int \<Rightarrow> int \<Rightarrow> real" where
  "seconds endTime start = real_of_int (endTime - start) / 1000"

definition recordHandler :: "env \<Rightarrow> RecordingState \<Rightarrow> world \<Rightarrow> (error + response) \<times> world" where
  "recordHandler e prev w =
     (let w0 = autoStop e w
      in case startNewRecording e (overlayPosition (vrs w0)) (sessionId (vrs w0)) w0 of
           (Inl err, w1) \<Rightarrow> (Inl err, w1)
         | (Inr u, w1) \<Rightarrow>
             (let w2 = updateOverlayState Recording (startRecordingTimeout w1)
              in (Inr \<lparr>previousState = prev, currentState = overlayState (vrs w2),
                       r_videoPath = None, r_duration = None,
                       r_message = ''Recording started successfully (max duration: 7 minutes)''\<rparr>,
                  w2)))"

definition resumeHandler :: "env \<Rightarrow> RecordingState \<Rightarrow> world \<Rightarrow> (error + response) \<times> world" where
  "resumeHandler e prev w =
     (case startNewRecording e (overlayPosition (vrs w)) (sessionId (vrs w)) w of
        (Inl err, w1) \<Rightarrow> (Inl err, w1)
      | (Inr u, w1) \<Rightarrow>
          (let w2 = updateOverlayState Recording
                      (startRecordingTimeout (w1\<lparr>vrs := (vrs w1)\<lparr>stopTime := None\<rparr>\<rparr>))
           in (Inr \<lparr>previousState = prev, currentState = overlayState (vrs w2),
                    r_videoPath = None, r_duration = None,
                    r_message = ''Recording resumed (new recording started, max duration: 7 minutes)''\<rparr>,
               w2)))"

text \<open>
  The update that the pause handler and both branches of the stop handler make.
\<close>

definition markStopped :: "env \<Rightarrow> world \<Rightarrow> world" where
  "markStopped e w =
     updateOverlayState Stopped
       (w\<lparr>vrs := (vrs w)\<lparr>isRecording := False, overlayState := Stopped,
                          stopTime := Some (now e)\<rparr>\<rparr>)"

definition pauseHandler :: "env \<Rightarrow> RecordingState \<Rightarrow> world \<Rightarrow> (error + response) \<times> world" where
  "pauseHandler e prev w =
     (let w1 = clearRecordingTimeout w
      in case stopVideoRecording e (ctx w1) of
           (Inl err, c1) \<Rightarrow> (Inl err, w1\<lparr>ctx := c1\<rparr>)
         | (Inr stopResult, c1) \<Rightarrow>
             (case (truthy stopResult, startTime (vrs w1)) of
                (Some p, Some start) \<Rightarrow>
                  (let w2 = markStopped e (w1\<lparr>ctx := c1\<rparr>)
                   in (Inr \<lparr>previousState = prev, currentState = overlayState (vrs w2),
                            r_videoPath = Some p, r_duration = Some (seconds (now e) start),
                            r_message = ''Recording paused (stopped). Video saved to '' @ p
                               @ ''. Resume will start new recording.''\<rparr>,
                       w2))
              | _ \<Rightarrow> (Inl FailedToStopDuringPause, w1\<lparr>ctx := c1\<rparr>)))"

definition stopHandler :: "env \<Rightarrow> RecordingState \<Rightarrow> world \<Rightarrow> (error + response) \<times> world" where
  "stopHandler e prev w =
     (let w1 = clearRecordingTimeout w
      in case stopVideoRecording e (ctx w1) of
           (Inl err, c1) \<Rightarrow> (Inl err, w1\<lparr>ctx := c1\<rparr>)
         | (Inr stopResult, c1) \<Rightarrow>
             (let w2 = markStopped e (w1\<lparr>ctx := c1\<rparr>)
              in case (truthy stopResult, startTime (vrs w1)) of
                   (Some p, Some start) \<Rightarrow>
                     (Inr \<lparr>previousState = prev, currentState = overlayState (vrs w2),
                           r_videoPath = Some p, r_duration = Some (seconds (now e) start),
                           r_message = ''Recording stopped. Video saved to '' @ p\<rparr>,
                      w2)
                 | _ \<Rightarrow>
                     (Inr \<lparr>previousState = prev, currentState = overlayState (vrs w2),
                           r_videoPath = truthy (videoPath (vrs w2)), r_duration = None,
                           r_message =
                             ''Recording stopped (was already stopped or timed out). Video path: ''
                             @ (case truthy (videoPath (vrs w2)) of
                                  None \<Rightarrow> ''not available'' | Some p \<Rightarrow> p)\<rparr>,
                      w2)))"

text \<open>
  \<^verbatim>\<open>videoOverlayControl\<close>: the check of the overlay, the current tab, the validation,
  then the handler of the action.
\<close>

definition videoOverlayControl :: "env \<Rightarrow> Action \<Rightarrow> world \<Rightarrow> (error + response) \<times> world" where
  "videoOverlayControl e action w =
     (if \<not> overlayEnabled (vrs w) then (Inl OVERLAY_NOT_ENABLED, w)
      else
        (let prev = overlayState (vrs w)
         in case currentTabOrDie (ctx w) of
              Inl err \<Rightarrow> (Inl err, w)
            | Inr tab \<Rightarrow>
                (case validateStateTransition (overlayEnabled (vrs w)) prev
                        (targetState action) action of
                   Inl err \<Rightarrow> (Inl err, w)
                 | Inr u \<Rightarrow>
                     (case action of
                        Record \<Rightarrow> recordHandler e prev w
                      | Pause \<Rightarrow> pauseHandler e prev w
                      | Resume \<Rightarrow> resumeHandler e prev w
                      | Stop \<Rightarrow> stopHandler e prev w))))"

subsection \<open>The enable handler\<close>

record enabled =
  en_sessionId :: string
  en_position :: OverlayPosition
  recordingStarted :: bool

text \<open>
  The auto-start block of the enable handler: the auto-stop, the start of the capture, the
  timeout and the overlay update, as in the record handler.
\<close>

definition autoStartRecording ::
    "env \<Rightarrow> OverlayPosition \<Rightarrow> string \<Rightarrow> world \<Rightarrow> (error + unit) \<times> world" where
  "autoStartRecording e position sid w =
     (case startNewRecording e position (Some sid) (autoStop e w) of
        (Inl err, w3) \<Rightarrow> (Inl err, w3)
      | (Inr u, w3) \<Rightarrow> (Inr (), updateOverlayState Recording (startRecordingTimeout w3)))"

text \<open>
  \<^verbatim>\<open>videoOverlayEnable\<close>. The first block, up to the registration of the injection
  for future pages, then the auto-start if it is asked for.
\<close>

definition enableOverlay ::
    "env \<Rightarrow> OverlayPosition \<Rightarrow> string \<Rightarrow> context \<Rightarrow> world \<Rightarrow> (error + unit) \<times> world" where
  "enableOverlay e position sid c1 w =
     (let w1 = w\<lparr>vrs := (vrs w)\<lparr>overlayEnabled := True, overlayPosition := position,
                                  overlayState := Idle, sessionId := Some sid\<rparr>,
                 ctx := c1\<rparr>
      in case currentTabOrDie c1 of
           Inl err \<Rightarrow> (Inl err, w1)
         | Inr tab \<Rightarrow>
             (case injectRecordingOverlay e tab position (Some sid) c1 of
                (Inl err, c2) \<Rightarrow> (Inl err, w1\<lparr>ctx := c2\<rparr>)
              | (Inr u, c2) \<Rightarrow>
                  (Inr (), w1\<lparr>ctx := did (OnPageInject position (Some sid)) c2\<rparr>)))"

definition videoOverlayEnable ::
    "env \<Rightarrow> OverlayPosition option \<Rightarrow> bool option \<Rightarrow> world \<Rightarrow> (error + enabled) \<times> world" where
  "videoOverlayEnable e pos auto w =
     (if overlayEnabled (vrs w) then (Inl OVERLAY_ALREADY_ENABLED, w)
      else
        (case ensureTab e (ctx w) of
           (Inl err, c1) \<Rightarrow> (Inl CONTEXT_CLOSED, w\<lparr>ctx := c1\<rparr>)
         | (Inr u, c1) \<Rightarrow>
             (let position = (case pos of None \<Rightarrow> TopRight | Some p \<Rightarrow> p);
                  autoStart = (case auto of None \<Rightarrow> False | Some a \<Rightarrow> a);
                  sid = uuid e
              in case enableOverlay e position sid c1 w of
                   (Inl err, w2) \<Rightarrow> (Inl err, w2)
                 | (Inr u, w2) \<Rightarrow>
                     (if autoStart
                      then (case autoStartRecording e position sid w2 of
                              (Inl err, w3) \<Rightarrow> (Inl err, w3)
                            | (Inr u, w3) \<Rightarrow>
                                (Inr \<lparr>en_sessionId = sid, en_position = position,
                                      recordingStarted = True\<rparr>, w3))
                      else (Inr \<lparr>en_sessionId = sid, en_position = position,
                                 recordingStarted = False\<rparr>, w2)))))"

subsection \<open>The status handler\<close>

record VideoMetadata =
  format :: string
  md_duration :: real
  resolution :: "nat \<times> nat"
  fileSize :: nat

record status =
  st_overlayEnabled :: bool
  st_overlayPosition :: "OverlayPosition option"
  st_sessionId :: "string option"
  st_state :: RecordingState
  elapsedTime :: real
  st_startTime :: "int option"
  st_stopTime :: "int option"
  st_videoPath :: "string option"
  videoMetadata :: "VideoMetadata option"

text \<open>The status object that \<^verbatim>\<open>videoStatus\<close> builds from the global record.\<close>

definition statusOf :: "env \<Rightarrow> videoRecordingState \<Rightarrow> status" where
  "statusOf e s =
     (let elapsed = (case startTime s of
                       None \<Rightarrow> 0
                     | Some start \<Rightarrow>
                         seconds (case stopTime s of None \<Rightarrow> now e | Some t \<Rightarrow> t) start);
          metadata = (if overlayState s = Stopped \<and> truthy (videoPath s) \<noteq> None
                      then (case statSize e of
                              None \<Rightarrow> None
                            | Some n \<Rightarrow> Some \<lparr>format = ''webm'', md_duration = elapsed,
                                               resolution = DEFAULT_VIDEO_SIZE, fileSize = n\<rparr>)
                      else None)
      in \<lparr>st_overlayEnabled = overlayEnabled s,
          st_overlayPosition = (if overlayEnabled s then Some (overlayPosition s) else None),
          st_sessionId = sessionId s,
          st_state = overlayState s,
          elapsedTime = elapsed,
          st_startTime = startTime s,
          st_stopTime = stopTime s,
          st_videoPath = (if overlayState s = Stopped then videoPath s else None),
          videoMetadata = metadata\<rparr>)"

definition videoStatus :: "env \<Rightarrow> world \<Rightarrow> (error + status) \<times> world" where
  "videoStatus e w =
     (case ensureTab e (ctx w) of
        (Inl err, c1) \<Rightarrow> (Inl CONTEXT_CLOSED, w\<lparr>ctx := c1\<rparr>)
      | (Inr u, c1) \<Rightarrow> (Inr (statusOf e (vrs w)), w\<lparr>ctx := c1\<rparr>))"

subsection \<open>Histories\<close>

text \<open>
  What can happen to the process: a call of one of the three tools, or a pending timer that
  fires. A history is a list of events, each with the answers of the environment while it
  is handled; \<open>exec\<close> runs a history and gives the state it leaves.
\<close>

datatype event =
    Enable "OverlayPosition option" "bool option"
  | Control Action
  | TimeoutFired nat
  | StatusQuery

fun step :: "world \<Rightarrow> env \<times> event \<Rightarrow> world" where
  "step w (e, Enable pos auto) = snd (videoOverlayEnable e pos auto w)"
| "step w (e, Control action) = snd (videoOverlayControl e action w)"
| "step w (e, TimeoutFired t) = timeoutFired e t w"
| "step w (e, StatusQuery) = snd (videoStatus e w)"

definition exec :: "world \<Rightarrow> (env \<times> event) list \<Rightarrow> world" where
  "exec w h = foldl step w h"

subsection \<open>Notions used by the properties\<close>

text \<open>
  The three fields that the enable handler sets once for the session.
\<close>

definition identity :: "videoRecordingState \<Rightarrow> string option \<times> OverlayPosition \<times> bool" where
  "identity s = (sessionId s, overlayPosition s, overlayEnabled s)"

text \<open>The calls that recreate one page for each URL of a list, in order.\<close>

definition recreated :: "string list \<Rightarrow> effect list" where
  "recreated urls = concat (map (\<lambda>url. [NewPage, Goto url]) urls)"

text \<open>
  A history in which no record action that is issued during a capture fails.
\<close>

fun startsSucceed :: "world \<Rightarrow> (env \<times> event) list \<Rightarrow> bool" where
  "startsSucceed w [] = True"
| "startsSucceed w ((e, ev) # h) =
     ((if ev = Control Record \<and> isRecording (vrs w)
       then \<not> isl (fst (videoOverlayControl e Record w)) else True)
      \<and> startsSucceed (step w (e, ev)) h)"

text \<open>
  The invariant about the idle state, in a form that is preserved step by step: in state
  idle there is no path, no start time and no capture, and a session whose overlay is not
  enabled is idle.
\<close>

definition idleInv :: "videoRecordingState \<Rightarrow> bool" where
  "idleInv s =
     ((if overlayState s = Idle
       then videoPath s = None \<and> startTime s = None \<and> \<not> isRecording s else True)
      \<and> (if overlayEnabled s then True else overlayState s = Idle))"

text \<open>
  What the auto-stop, and what the start of a capture with its timeout (handle \<open>n\<close>),
  make of the global record.
\<close>

definition autoStopped :: "env \<Rightarrow> videoRecordingState \<Rightarrow> videoRecordingState" where
  "autoStopped e s =
     (if isRecording s
      then s\<lparr>recordingTimeout := None, isRecording := False, overlayState := Idle,
             stopTime := Some (now e)\<rparr>
      else s)"

definition started :: "env \<Rightarrow> nat \<Rightarrow> videoRecordingState \<Rightarrow> videoRecordingState" where
  "started e n s =
     s\<lparr>isRecording := True, startTime := Some (now e),
       filename := Some (recordingFilename e),
       videoPath := outputFile e (recordingFilename e),
       overlayState := Recording, contextRef := True, recordingTimeout := Some n\<rparr>"

text \<open>
  The invariant about the timers: no timer is pending, or a capture is running, the
  context reference is set, and the one pending timer is the one whose handle the record
  holds.
\<close>

definition timerInv :: "world \<Rightarrow> bool" where
  "timerInv w =
     (timers w = []
      \<or> (isRecording (vrs w) \<and> contextRef (vrs w)
          \<and> map Some (timers w) = [recordingTimeout (vrs w)]))"

text \<open>
  A sample environment in which every call succeeds, at clock \<open>t\<close>, and sample states:
  after enabling the overlay and starting a capture, and after stopping that capture.
\<close>

definition demoEnv :: "int \<Rightarrow> env" where
  "demoEnv t =
     \<lparr>now = t, isoNow = ''2025-11-29T10:30:00.000Z'', uuid = ''session-1'',
      outputFile = (\<lambda>name. Some (''/out/'' @ name)), dirname = (\<lambda>p. ''/out''),
      mkdirOk = True, configRecordVideo = None, closeOk = True, createOk = True,
      initialPages = [], newPageOk = True, gotoOk = (\<lambda>url. True),
      videoFile = Some ''/out/page.webm'', injectOk = True, statSize = Some 4096\<rparr>"

definition enabledWorld :: world where
  "enabledWorld = exec initialWorld [(demoEnv 1000, Enable None None)]"

definition recordingWorld :: world where
  "recordingWorld = exec enabledWorld [(demoEnv 2000, Control Record)]"

definition stoppedWorld :: world where
  "stoppedWorld = exec recordingWorld [(demoEnv 5000, Control Stop)]"

text \<open>The stopped state after a status query, which opens a browser context and a tab again.\<close>

definition reopenedWorld :: world where
  "reopenedWorld = exec stoppedWorld [(demoEnv 5500, StatusQuery)]"

text \<open>
  A context with four open pages, two of them placeholders, and a capture descriptor.
\<close>

definition browsingContext :: "context" where
  "browsingContext =
     \<lparr>videoRecordingEnabled = False, videoRecordingOptions = None,
      browserContextPromise = Some (BrowserContext None),
      tabs = [''https://example.com/a'', ''about:blank'', [], ''https://example.com/b''],
      currentTab = Some 0, effects = []\<rparr>"

definition blankContext :: "context" where
  "blankContext =
     \<lparr>videoRecordingEnabled = False, videoRecordingOptions = None,
      browserContextPromise = Some (BrowserContext None),
      tabs = [''about:blank''], currentTab = Some 0, effects = []\<rparr>"

definition sampleDescriptor :: RecordVideo where
  "sampleDescriptor = \<lparr>dir = ''/out'', videoSize = DEFAULT_VIDEO_SIZE\<rparr>"

text \<open>
  The state after the timer of the sample capture has fired while the browser context did
  not close: the record is stopped, the context still has recording enabled.
\<close>

definition unclosedWorld :: world where
  "unclosedWorld = timeoutFired ((demoEnv 9000)\<lparr>closeOk := False\<rparr>) 0 recordingWorld"

text \<open>
  Two histories with a record action whose new browser context cannot be created: the
  first issues it during a capture, the second in state idle.
\<close>

definition failedRestart :: "(env \<times> event) list" where
  "failedRestart =
     [(demoEnv 1000, Enable None None), (demoEnv 2000, Control Record),
      ((demoEnv 3000)\<lparr>createOk := False\<rparr>, Control Record)]"

definition failedStart :: "(env \<times> event) list" where
  "failedStart =
     [(demoEnv 1000, Enable None None), ((demoEnv 2000)\<lparr>createOk := False\<rparr>, Control Record)]"

section \<open>Properties\<close>

subsection \<open>The sample states\<close>

text \<open>The sample states, computed once; later evaluations start from these values.\<close>

lemma enabledWorld_value [code]:
  "enabledWorld =
     \<lparr>vrs = \<lparr>isRecording = False, startTime = None, filename = None, videoPath = None,
             overlayEnabled = True, overlayPosition = TopRight, overlayState = Idle,
             sessionId = Some ''session-1'', stopTime = None, recordingTimeout = None,
             contextRef = False\<rparr>,
      ctx = \<lparr>videoRecordingEnabled = False, videoRecordingOptions = None,
             browserContextPromise = Some (BrowserContext None),
             tabs = [''about:blank''], currentTab = Some 0,
             effects = [CreateContext None, NewPage,
                        InjectOverlay 0 TopRight (Some ''session-1''),
                        OnPageInject TopRight (Some ''session-1'')]\<rparr>,
      timers = [], nextTimer = 0\<rparr>"
  by code_simp

lemma recordingWorld_value [code]:
  "recordingWorld =
     \<lparr>vrs = \<lparr>isRecording = True, startTime = Some 2000,
             filename = Some ''overlay-recording-2025-11-29T10-30-00-000Z.webm'',
             videoPath = Some ''/out/overlay-recording-2025-11-29T10-30-00-000Z.webm'',
             overlayEnabled = True, overlayPosition = TopRight, overlayState = Recording,
             sessionId = Some ''session-1'', stopTime = None, recordingTimeout = Some 0,
             contextRef = True\<rparr>,
      ctx = \<lparr>videoRecordingEnabled = True,
             videoRecordingOptions = Some \<lparr>dir = ''/out'', videoSize = (800, 600)\<rparr>,
             browserContextPromise =
               Some (BrowserContext (Some \<lparr>dir = ''/out'', videoSize = (800, 600)\<rparr>)),
             tabs = [''about:blank''], currentTab = Some 0,
             effects = [CreateContext None, NewPage,
                        InjectOverlay 0 TopRight (Some ''session-1''),
                        OnPageInject TopRight (Some ''session-1''), CloseContext,
                        CreateContext (Some \<lparr>dir = ''/out'', videoSize = (800, 600)\<rparr>),
                        NewPage, InjectOverlay 0 TopRight (Some ''session-1''),
                        OnPageInject TopRight (Some ''session-1''),
                        UpdateOverlay Recording]\<rparr>,
      timers = [0], nextTimer = 1\<rparr>"
  by code_simp

lemma stoppedWorld_value [code]:
  "stoppedWorld =
     \<lparr>vrs = \<lparr>isRecording = False, startTime = Some 2000,
             filename = Some ''overlay-recording-2025-11-29T10-30-00-000Z.webm'',
             videoPath = Some ''/out/overlay-recording-2025-11-29T10-30-00-000Z.webm'',
             overlayEnabled = True, overlayPosition = TopRight, overlayState = Stopped,
             sessionId = Some ''session-1'', stopTime = Some 5000, recordingTimeout = None,
             contextRef = True\<rparr>,
      ctx = \<lparr>videoRecordingEnabled = False, videoRecordingOptions = None,
             browserContextPromise = None, tabs = [], currentTab = None,
             effects = [CreateContext None, NewPage,
                        InjectOverlay 0 TopRight (Some ''session-1''),
                        OnPageInject TopRight (Some ''session-1''), CloseContext,
                        CreateContext (Some \<lparr>dir = ''/out'', videoSize = (800, 600)\<rparr>),
                        NewPage, InjectOverlay 0 TopRight (Some ''session-1''),
                        OnPageInject TopRight (Some ''session-1''),
                        UpdateOverlay Recording, VideoPath, CloseContext, Wait 1000,
                        UpdateOverlay Stopped]\<rparr>,
      timers = [], nextTimer = 1\<rparr>"
  by code_simp

lemma reopenedWorld_value [code]:
  "reopenedWorld =
     \<lparr>vrs = \<lparr>isRecording = False, startTime = Some 2000,
             filename = Some ''overlay-recording-2025-11-29T10-30-00-000Z.webm'',
             videoPath = Some ''/out/overlay-recording-2025-11-29T10-30-00-000Z.webm'',
             overlayEnabled = True, overlayPosition = TopRight, overlayState = Stopped,
             sessionId = Some ''session-1'', stopTime = Some 5000, recordingTimeout = None,
             contextRef = True\<rparr>,
      ctx = \<lparr>videoRecordingEnabled = False, videoRecordingOptions = None,
             browserContextPromise = Some (BrowserContext None),
             tabs = [''about:blank''], currentTab = Some 0,
             effects = [CreateContext None, NewPage,
                        InjectOverlay 0 TopRight (Some ''session-1''),
                        OnPageInject TopRight (Some ''session-1''), CloseContext,
                        CreateContext (Some \<lparr>dir = ''/out'', videoSize = (800, 600)\<rparr>),
                        NewPage, InjectOverlay 0 TopRight (Some ''session-1''),
                        OnPageInject TopRight (Some ''session-1''),
                        UpdateOverlay Recording, VideoPath, CloseContext, Wait 1000,
                        UpdateOverlay Stopped, CreateContext None, NewPage]\<rparr>,
      timers = [], nextTimer = 1\<rparr>"
  by code_simp

subsection \<open>The decisions of the validation\<close>

text \<open>
  Which pairs the validation accepts: record from every state, pause from recording,
  resume from stopped, stop from recording and from stopped.
\<close>

lemma accepted_iff:
  "decision current action = None \<longleftrightarrow>
     action = Record \<or> (action = Pause \<and> current = Recording)
     \<or> (action = Resume \<and> current = Stopped)
     \<or> (action = Stop \<and> current \<noteq> Idle)"
  by (cases current; cases action) (simp_all add: decision_def validateStateTransition_def)

text \<open>
  The check that answers "No active recording to stop/pause" comes after the check of
  the table, which has already rejected every stop and pause outside of recording: with
  the target state that the handler derives, this answer is never given.
\<close>

lemma never_NoActiveRecording:
  "validateStateTransition enabled current (targetState action) action \<noteq> Inl NoActiveRecording"
  by (cases current; cases action) (simp_all add: validateStateTransition_def)

text \<open>
  C1. The claim: with the overlay enabled, the validation decides as the transition table
  says, where pause outside of recording and stop from idle are rejected as
  NoActiveCapture. The code at stop from idle, pause from idle and pause from stopped:
  the rejection is "Invalid state transition", not "No active recording"; the control
  handler throws it as it is and leaves the state idle.
\<close>

theorem stop_from_idle_is_invalid_transition:
  "validateStateTransition True Idle (targetState Stop) Stop
     = Inl (InvalidStateTransition Idle Stopped)
   \<and> decision Idle Stop = Some InvalidTransition
   \<and> decision Idle Pause = Some InvalidTransition
   \<and> decision Stopped Pause = Some InvalidTransition
   \<and> videoOverlayControl (demoEnv 1500) Stop enabledWorld
       = (Inl (InvalidStateTransition Idle Stopped), enabledWorld)"
proof -
  have "overlayEnabled (vrs enabledWorld)" and "overlayState (vrs enabledWorld) = Idle"
    and "currentTab (ctx enabledWorld) = Some 0"
    by (simp_all add: enabledWorld_value)
  then have "videoOverlayControl (demoEnv 1500) Stop enabledWorld
       = (Inl (InvalidStateTransition Idle Stopped), enabledWorld)"
    by (simp add: videoOverlayControl_def currentTabOrDie_def validateStateTransition_def)
  then show ?thesis by (simp add: decision_def validateStateTransition_def)
qed

subsection \<open>What the handlers do to the global record and the timers\<close>

lemma vrs_clearRecordingTimeout:
  "vrs (clearRecordingTimeout w) = (vrs w)\<lparr>recordingTimeout := None\<rparr>"
  by (simp add: clearRecordingTimeout_def split: option.split)

lemma ctx_clearRecordingTimeout: "ctx (clearRecordingTimeout w) = ctx w"
  by (simp add: clearRecordingTimeout_def split: option.split)

lemma vrs_stopRecordingInternal:
  "vrs (snd (stopRecordingInternal e w)) =
     (if isRecording (vrs w)
      then (vrs w)\<lparr>recordingTimeout := None, isRecording := False, overlayState := Stopped,
                   stopTime := Some (now e)\<rparr>
      else (vrs w)\<lparr>recordingTimeout := None\<rparr>)"
  by (simp add: stopRecordingInternal_def Let_def vrs_clearRecordingTimeout split: prod.split)

lemma vrs_startNewRecording:
  "vrs (snd (startNewRecording e position sid w)) =
     (case fst (startNewRecording e position sid w) of
        Inl err \<Rightarrow> vrs w
      | Inr u \<Rightarrow> (vrs w)\<lparr>isRecording := True, startTime := Some (now e),
                         filename := Some (recordingFilename e),
                         videoPath := outputFile e (recordingFilename e),
                         overlayState := Recording\<rparr>)"
  by (simp add: startNewRecording_def Let_def split: option.split prod.split sum.split)

lemma vrs_autoStop:
  "vrs (autoStop e w) =
     (if isRecording (vrs w)
      then (vrs w)\<lparr>recordingTimeout := None, isRecording := False, overlayState := Idle,
                   stopTime := Some (now e)\<rparr>
      else vrs w)"
  by (simp add: autoStop_def Let_def vrs_stopRecordingInternal)

lemma timers_clearRecordingTimeout:
  "timers (clearRecordingTimeout w) =
     (case recordingTimeout (vrs w) of None \<Rightarrow> timers w | Some t \<Rightarrow> removeAll t (timers w))"
  by (simp add: clearRecordingTimeout_def split: option.split)

lemma nextTimer_clearRecordingTimeout: "nextTimer (clearRecordingTimeout w) = nextTimer w"
  by (simp add: clearRecordingTimeout_def split: option.split)

lemma timers_stopRecordingInternal:
  "timers (snd (stopRecordingInternal e w)) =
     (case recordingTimeout (vrs w) of None \<Rightarrow> timers w | Some t \<Rightarrow> removeAll t (timers w))"
  by (simp add: stopRecordingInternal_def Let_def timers_clearRecordingTimeout split: prod.split)

lemma nextTimer_stopRecordingInternal: "nextTimer (snd (stopRecordingInternal e w)) = nextTimer w"
  by (simp add: stopRecordingInternal_def Let_def nextTimer_clearRecordingTimeout split: prod.split)

lemma timers_startNewRecording: "timers (snd (startNewRecording e position sid w)) = timers w"
  by (simp add: startNewRecording_def Let_def split: option.split prod.split sum.split)

lemma nextTimer_startNewRecording: "nextTimer (snd (startNewRecording e position sid w)) = nextTimer w"
  by (simp add: startNewRecording_def Let_def split: option.split prod.split sum.split)

lemma timers_autoStop:
  "timers (autoStop e w) =
     (if isRecording (vrs w)
      then (case recordingTimeout (vrs w) of None \<Rightarrow> timers w | Some t \<Rightarrow> removeAll t (timers w))
      else timers w)"
  by (simp add: autoStop_def Let_def timers_stopRecordingInternal)

lemma nextTimer_autoStop: "nextTimer (autoStop e w) = nextTimer w"
  by (simp add: autoStop_def Let_def nextTimer_stopRecordingInternal)

lemma vrs_updateOverlayState: "vrs (updateOverlayState st w) = vrs w"
  by (simp add: updateOverlayState_def)

lemma timers_updateOverlayState: "timers (updateOverlayState st w) = timers w"
  by (simp add: updateOverlayState_def)

lemma vrs_markStopped:
  "vrs (markStopped e w) =
     (vrs w)\<lparr>isRecording := False, overlayState := Stopped, stopTime := Some (now e)\<rparr>"
  by (simp add: markStopped_def updateOverlayState_def)

lemma timers_markStopped: "timers (markStopped e w) = timers w"
  by (simp add: markStopped_def updateOverlayState_def)

lemma vrs_startRecordingTimeout:
  "vrs (startRecordingTimeout w) =
     (vrs w)\<lparr>contextRef := True, recordingTimeout := Some (nextTimer w)\<rparr>"
  by (simp add: startRecordingTimeout_def)

text \<open>What each handler does to the global record.\<close>

lemma vrs_recordHandler:
  "vrs (snd (recordHandler e prev w)) =
     (case fst (recordHandler e prev w) of
        Inl err \<Rightarrow> vrs (autoStop e w)
      | Inr r \<Rightarrow> (vrs (autoStop e w))\<lparr>isRecording := True, startTime := Some (now e),
                         filename := Some (recordingFilename e),
                         videoPath := outputFile e (recordingFilename e),
                         overlayState := Recording, contextRef := True,
                         recordingTimeout := Some (nextTimer w)\<rparr>)"
  using
    vrs_startNewRecording [of e "overlayPosition (vrs (autoStop e w))"
      "sessionId (vrs (autoStop e w))" "autoStop e w"]
    nextTimer_startNewRecording [of e "overlayPosition (vrs (autoStop e w))"
      "sessionId (vrs (autoStop e w))" "autoStop e w"]
  by (auto simp add: recordHandler_def Let_def vrs_updateOverlayState vrs_startRecordingTimeout
      nextTimer_autoStop split: prod.split sum.split)

lemma vrs_resumeHandler:
  "vrs (snd (resumeHandler e prev w)) =
     (case fst (resumeHandler e prev w) of
        Inl err \<Rightarrow> vrs w
      | Inr r \<Rightarrow> (vrs w)\<lparr>isRecording := True, startTime := Some (now e),
                         filename := Some (recordingFilename e),
                         videoPath := outputFile e (recordingFilename e),
                         overlayState := Recording, stopTime := None, contextRef := True,
                         recordingTimeout := Some (nextTimer w)\<rparr>)"
  using
    vrs_startNewRecording [of e "overlayPosition (vrs w)" "sessionId (vrs w)" w]
    nextTimer_startNewRecording [of e "overlayPosition (vrs w)" "sessionId (vrs w)" w]
  by (auto simp add: resumeHandler_def Let_def vrs_updateOverlayState vrs_startRecordingTimeout
      split: prod.split sum.split)

lemma vrs_pauseHandler:
  "vrs (snd (pauseHandler e prev w)) =
     (case fst (pauseHandler e prev w) of
        Inl err \<Rightarrow> (vrs w)\<lparr>recordingTimeout := None\<rparr>
      | Inr r \<Rightarrow> (vrs w)\<lparr>recordingTimeout := None, isRecording := False,
                         overlayState := Stopped, stopTime := Some (now e)\<rparr>)"
  by (simp add: pauseHandler_def Let_def vrs_clearRecordingTimeout vrs_markStopped
      split: prod.split sum.split option.split)

lemma vrs_stopHandler:
  "vrs (snd (stopHandler e prev w)) =
     (case fst (stopHandler e prev w) of
        Inl err \<Rightarrow> (vrs w)\<lparr>recordingTimeout := None\<rparr>
      | Inr r \<Rightarrow> (vrs w)\<lparr>recordingTimeout := None, isRecording := False,
                         overlayState := Stopped, stopTime := Some (now e)\<rparr>)"
  by (simp add: stopHandler_def Let_def vrs_clearRecordingTimeout vrs_markStopped
      split: prod.split sum.split option.split)

lemma identity_recordHandler: "identity (vrs (snd (recordHandler e prev w))) = identity (vrs w)"
  by (simp add: vrs_recordHandler vrs_autoStop identity_def split: sum.split)

lemma identity_resumeHandler: "identity (vrs (snd (resumeHandler e prev w))) = identity (vrs w)"
  by (simp add: vrs_resumeHandler identity_def split: sum.split)

lemma identity_pauseHandler: "identity (vrs (snd (pauseHandler e prev w))) = identity (vrs w)"
  by (simp add: vrs_pauseHandler identity_def split: sum.split)

lemma identity_stopHandler: "identity (vrs (snd (stopHandler e prev w))) = identity (vrs w)"
  by (simp add: vrs_stopHandler identity_def split: sum.split)

lemma identity_videoOverlayControl:
  "identity (vrs (snd (videoOverlayControl e action w))) = identity (vrs w)"
  by (simp add: videoOverlayControl_def Let_def identity_recordHandler identity_resumeHandler
      identity_pauseHandler identity_stopHandler split: sum.split Action.split)

lemma identity_timeoutFired: "identity (vrs (timeoutFired e t w)) = identity (vrs w)"
  by (simp add: timeoutFired_def Let_def vrs_stopRecordingInternal identity_def)

lemma identity_videoStatus: "identity (vrs (snd (videoStatus e w))) = identity (vrs w)"
  by (simp add: videoStatus_def split: prod.split sum.split)

text \<open>What a successful action tells.\<close>

lemma control_Inr:
  assumes "fst (videoOverlayControl e action w) = Inr r"
  shows "overlayEnabled (vrs w)
       \<and> validateStateTransition True (overlayState (vrs w)) (targetState action) action = Inr ()
       \<and> videoOverlayControl e action w =
           (case action of
              Record \<Rightarrow> recordHandler e (overlayState (vrs w)) w
            | Pause \<Rightarrow> pauseHandler e (overlayState (vrs w)) w
            | Resume \<Rightarrow> resumeHandler e (overlayState (vrs w)) w
            | Stop \<Rightarrow> stopHandler e (overlayState (vrs w)) w)"
  using assms
  by (simp add: videoOverlayControl_def Let_def split: if_splits sum.splits)

lemma startNewRecording_Inr:
  assumes "fst (startNewRecording e position sid w) = Inr u"
  shows "outputFile e (recordingFilename e) \<noteq> None"
  using assms by (simp add: startNewRecording_def Let_def split: option.splits)

lemma recordHandler_Inr:
  assumes "fst (recordHandler e prev w) = Inr r"
  shows "fst (startNewRecording e (overlayPosition (vrs (autoStop e w))) (sessionId (vrs (autoStop e w))) (autoStop e w)) = Inr ()
     \<and> currentState r = Recording"
  using assms
    vrs_startNewRecording [of e "overlayPosition (vrs (autoStop e w))" "sessionId (vrs (autoStop e w))" "autoStop e w"]
  by (auto simp add: recordHandler_def Let_def vrs_updateOverlayState vrs_startRecordingTimeout split: prod.splits sum.splits)

lemma resumeHandler_Inr:
  assumes "fst (resumeHandler e prev w) = Inr r"
  shows "fst (startNewRecording e (overlayPosition (vrs w)) (sessionId (vrs w)) w) = Inr ()
     \<and> currentState r = Recording"
  using assms
    vrs_startNewRecording [of e "overlayPosition (vrs w)" "sessionId (vrs w)" w]
  by (auto simp add: resumeHandler_def Let_def vrs_updateOverlayState vrs_startRecordingTimeout split: prod.splits sum.splits)

lemma timers_startRecordingTimeout:
  "timers (startRecordingTimeout w) =
     (case recordingTimeout (vrs w) of None \<Rightarrow> timers w | Some t \<Rightarrow> removeAll t (timers w))
     @ [nextTimer w]"
  by (simp add: startRecordingTimeout_def)

lemma recordingTimeout_startNewRecording:
  "recordingTimeout (vrs (snd (startNewRecording e position sid w))) = recordingTimeout (vrs w)"
  by (simp add: vrs_startNewRecording split: sum.split)

lemma timers_after_autoStop:
  "(case recordingTimeout (vrs (autoStop e w)) of
      None \<Rightarrow> timers (autoStop e w)
    | Some t \<Rightarrow> removeAll t (timers (autoStop e w)))
   = (case recordingTimeout (vrs w) of None \<Rightarrow> timers w | Some t \<Rightarrow> removeAll t (timers w))"
  by (simp add: vrs_autoStop timers_autoStop split: option.split)

lemma snd_recordHandler_Inr:
  assumes "fst (recordHandler e prev w) = Inr r"
  shows "snd (recordHandler e prev w) =
     updateOverlayState Recording
       (startRecordingTimeout
         (snd (startNewRecording e (overlayPosition (vrs (autoStop e w)))
                 (sessionId (vrs (autoStop e w))) (autoStop e w))))"
  using assms by (auto simp add: recordHandler_def Let_def split: prod.splits sum.splits)

lemma snd_resumeHandler_Inr:
  assumes "fst (resumeHandler e prev w) = Inr r"
  shows "snd (resumeHandler e prev w) =
     updateOverlayState Recording
       (startRecordingTimeout
         ((snd (startNewRecording e (overlayPosition (vrs w)) (sessionId (vrs w)) w))
            \<lparr>vrs := (vrs (snd (startNewRecording e (overlayPosition (vrs w)) (sessionId (vrs w)) w)))
                      \<lparr>stopTime := None\<rparr>\<rparr>))"
  using assms by (auto simp add: resumeHandler_def Let_def split: prod.splits sum.splits)

lemma timers_recordHandler:
  assumes "fst (recordHandler e prev w) = Inr r"
  shows "timers (snd (recordHandler e prev w)) =
     (case recordingTimeout (vrs w) of None \<Rightarrow> timers w | Some t \<Rightarrow> removeAll t (timers w))
     @ [nextTimer w]"
  by (simp add: snd_recordHandler_Inr [OF assms] timers_updateOverlayState
      timers_startRecordingTimeout recordingTimeout_startNewRecording timers_startNewRecording
      nextTimer_startNewRecording nextTimer_autoStop timers_after_autoStop
      cong: option.case_cong)

lemma timers_resumeHandler:
  assumes "fst (resumeHandler e prev w) = Inr r"
  shows "timers (snd (resumeHandler e prev w)) =
     (case recordingTimeout (vrs w) of None \<Rightarrow> timers w | Some t \<Rightarrow> removeAll t (timers w))
     @ [nextTimer w]"
  by (simp add: snd_resumeHandler_Inr [OF assms] timers_updateOverlayState
      timers_startRecordingTimeout recordingTimeout_startNewRecording timers_startNewRecording
      nextTimer_startNewRecording cong: option.case_cong)

lemma record_success:
  assumes "fst (videoOverlayControl e Record w) = Inr r"
  shows "overlayState (vrs (snd (videoOverlayControl e Record w))) = Recording
       \<and> currentState r = Recording
       \<and> isRecording (vrs (snd (videoOverlayControl e Record w)))
       \<and> startTime (vrs (snd (videoOverlayControl e Record w))) = Some (now e)
       \<and> videoPath (vrs (snd (videoOverlayControl e Record w))) = outputFile e (recordingFilename e)
       \<and> outputFile e (recordingFilename e) \<noteq> None
       \<and> recordingTimeout (vrs (snd (videoOverlayControl e Record w))) = Some (nextTimer w)
       \<and> timers (snd (videoOverlayControl e Record w)) =
           (case recordingTimeout (vrs w) of None \<Rightarrow> timers w | Some t \<Rightarrow> removeAll t (timers w))
           @ [nextTimer w]"
proof -
  from control_Inr [OF assms]
  have eq: "videoOverlayControl e Record w = recordHandler e (overlayState (vrs w)) w" by simp
  with assms have ok: "fst (recordHandler e (overlayState (vrs w)) w) = Inr r" by simp
  from recordHandler_Inr [OF ok] startNewRecording_Inr
  have out: "outputFile e (recordingFilename e) \<noteq> None" and cur: "currentState r = Recording"
    by auto
  from ok out cur timers_recordHandler [OF ok] show ?thesis
    by (simp add: eq vrs_recordHandler)
qed

lemma resume_success:
  assumes "fst (videoOverlayControl e Resume w) = Inr r"
  shows "overlayState (vrs (snd (videoOverlayControl e Resume w))) = Recording
       \<and> currentState r = Recording
       \<and> isRecording (vrs (snd (videoOverlayControl e Resume w)))
       \<and> startTime (vrs (snd (videoOverlayControl e Resume w))) = Some (now e)
       \<and> videoPath (vrs (snd (videoOverlayControl e Resume w))) = outputFile e (recordingFilename e)
       \<and> outputFile e (recordingFilename e) \<noteq> None
       \<and> stopTime (vrs (snd (videoOverlayControl e Resume w))) = None
       \<and> recordingTimeout (vrs (snd (videoOverlayControl e Resume w))) = Some (nextTimer w)
       \<and> timers (snd (videoOverlayControl e Resume w)) =
           (case recordingTimeout (vrs w) of None \<Rightarrow> timers w | Some t \<Rightarrow> removeAll t (timers w))
           @ [nextTimer w]"
proof -
  from control_Inr [OF assms]
  have eq: "videoOverlayControl e Resume w = resumeHandler e (overlayState (vrs w)) w" by simp
  with assms have ok: "fst (resumeHandler e (overlayState (vrs w)) w) = Inr r" by simp
  from resumeHandler_Inr [OF ok] startNewRecording_Inr
  have out: "outputFile e (recordingFilename e) \<noteq> None" and cur: "currentState r = Recording"
    by auto
  from ok out cur timers_resumeHandler [OF ok] show ?thesis
    by (simp add: eq vrs_resumeHandler)
qed

subsection \<open>Stop when already stopped\<close>

text \<open>
  The stop handler calls \<^verbatim>\<open>stopVideoRecording\<close> outside of any \<^verbatim>\<open>try\<close>:
  whenever recording is not enabled in the context, as after every stop that succeeded,
  the stop action throws, whatever the state of the record.
\<close>

lemma stop_throws_when_not_enabled:
  assumes "\<not> videoRecordingEnabled (ctx w)"
  shows "isl (fst (videoOverlayControl e Stop w))"
  using assms
  by (simp add: videoOverlayControl_def Let_def stopHandler_def stopVideoRecording_def
      ctx_clearRecordingTimeout split: sum.split)

text \<open>
  C2. The claim: in state stopped the stop action succeeds and changes neither state nor
  path, and no teardown failure reaches the caller. The code after enable, record, stop:
  a second stop throws "No current snapshot available", since the first stop closed the
  browser context and with it the current tab; and once a status query has opened a tab
  again, the second stop throws "Video recording is not enabled", raised by
  \<^verbatim>\<open>stopVideoRecording\<close> and not caught by the stop handler.
\<close>

theorem stop_when_stopped_throws:
  "overlayState (vrs stoppedWorld) = Stopped
   \<and> fst (videoOverlayControl (demoEnv 6000) Stop stoppedWorld) = Inl NoCurrentSnapshot
   \<and> fst (videoOverlayControl (demoEnv 6000) Stop reopenedWorld) = Inl VideoRecordingNotEnabled"
  by code_simp

subsection \<open>The fields of the session\<close>

text \<open>
  C10. The control handler (whatever the action, and whether it succeeds or throws), the
  timeout and the status handler leave \<open>sessionId\<close>, \<open>overlayPosition\<close> and
  \<open>overlayEnabled\<close> as they are. Of the handlers, only the enable handler writes them.
\<close>

theorem control_keeps_identity:
  "sessionId (vrs (snd (videoOverlayControl e action w))) = sessionId (vrs w)
   \<and> overlayPosition (vrs (snd (videoOverlayControl e action w))) = overlayPosition (vrs w)
   \<and> overlayEnabled (vrs (snd (videoOverlayControl e action w))) = overlayEnabled (vrs w)
   \<and> sessionId (vrs (timeoutFired e t w)) = sessionId (vrs w)
   \<and> overlayPosition (vrs (timeoutFired e t w)) = overlayPosition (vrs w)
   \<and> overlayEnabled (vrs (timeoutFired e t w)) = overlayEnabled (vrs w)
   \<and> sessionId (vrs (snd (videoStatus e w))) = sessionId (vrs w)"
  using identity_videoOverlayControl [of e action w] identity_timeoutFired [of e t w]
    identity_videoStatus [of e w]
  by (simp add: identity_def)

subsection \<open>After a successful record or resume\<close>

text \<open>
  C5, as amended. After a record or resume action that succeeds, the state is recording,
  \<open>isRecording\<close> is set, the start time is the clock of the action, and the path kept
  in the record is the path of the new capture's file, as \<^verbatim>\<open>outputFile\<close> gave it
  (it is not null); after a resume the stop time is cleared. The timer of the record's
  old handle, if any, is no longer pending, and a new timer is pending under a new handle,
  which the record now holds.
\<close>

theorem record_resume_success:
  assumes "action = Record \<or> action = Resume"
      and "fst (videoOverlayControl e action w) = Inr r"
  shows "overlayState (vrs (snd (videoOverlayControl e action w))) = Recording
       \<and> currentState r = Recording
       \<and> isRecording (vrs (snd (videoOverlayControl e action w)))
       \<and> startTime (vrs (snd (videoOverlayControl e action w))) = Some (now e)
       \<and> videoPath (vrs (snd (videoOverlayControl e action w))) = outputFile e (recordingFilename e)
       \<and> videoPath (vrs (snd (videoOverlayControl e action w))) \<noteq> None
       \<and> (action = Resume \<longrightarrow> stopTime (vrs (snd (videoOverlayControl e action w))) = None)
       \<and> recordingTimeout (vrs (snd (videoOverlayControl e action w))) = Some (nextTimer w)
       \<and> timers (snd (videoOverlayControl e action w)) =
           (case recordingTimeout (vrs w) of None \<Rightarrow> timers w | Some t \<Rightarrow> removeAll t (timers w))
           @ [nextTimer w]"
  using assms record_success [of e w r] resume_success [of e w r] by auto

theorem record_resume_success_witness:
  "fst (videoOverlayControl (demoEnv 7000) Resume reopenedWorld)
     = Inr \<lparr>previousState = Stopped, currentState = Recording, r_videoPath = None,
            r_duration = None,
            r_message = ''Recording resumed (new recording started, max duration: 7 minutes)''\<rparr>
   \<and> overlayState (vrs (snd (videoOverlayControl (demoEnv 7000) Resume reopenedWorld))) = Recording
   \<and> startTime (vrs (snd (videoOverlayControl (demoEnv 7000) Resume reopenedWorld))) = Some 7000
   \<and> stopTime (vrs (snd (videoOverlayControl (demoEnv 7000) Resume reopenedWorld))) = None
   \<and> videoPath (vrs (snd (videoOverlayControl (demoEnv 7000) Resume reopenedWorld)))
       = Some ''/out/overlay-recording-2025-11-29T10-30-00-000Z.webm''
   \<and> recordingTimeout (vrs (snd (videoOverlayControl (demoEnv 7000) Resume reopenedWorld))) = Some 1
   \<and> timers (snd (videoOverlayControl (demoEnv 7000) Resume reopenedWorld)) = [1]"
proof -
  have h: "fst (videoOverlayControl (demoEnv 7000) Resume reopenedWorld)
     = Inr \<lparr>previousState = Stopped, currentState = Recording, r_videoPath = None,
            r_duration = None,
            r_message = ''Recording resumed (new recording started, max duration: 7 minutes)''\<rparr>"
    by code_simp
  have n: "now (demoEnv 7000) = 7000" by (simp add: demoEnv_def)
  have o: "outputFile (demoEnv 7000) (recordingFilename (demoEnv 7000))
     = Some ''/out/overlay-recording-2025-11-29T10-30-00-000Z.webm''" by code_simp
  have t: "nextTimer reopenedWorld = 1" by (simp add: reopenedWorld_value)
  have r: "recordingTimeout (vrs reopenedWorld) = None" by (simp add: reopenedWorld_value)
  have p: "timers reopenedWorld = []" by (simp add: reopenedWorld_value)
  from record_resume_success [OF _ h] h n o t r p show ?thesis by simp
qed

text \<open>
  C5, as the claim states it, fails: a successful record from idle leaves the path in the
  record set. (A successful record after a stop also leaves the stop time of the capture
  before: the record handler has no line that clears it, the resume handler has.)
\<close>

theorem record_sets_videoPath:
  "fst (videoOverlayControl (demoEnv 2000) Record enabledWorld)
     = Inr \<lparr>previousState = Idle, currentState = Recording, r_videoPath = None,
            r_duration = None,
            r_message = ''Recording started successfully (max duration: 7 minutes)''\<rparr>
   \<and> videoPath (vrs (snd (videoOverlayControl (demoEnv 2000) Record enabledWorld)))
       = Some ''/out/overlay-recording-2025-11-29T10-30-00-000Z.webm''
   \<and> fst (videoOverlayControl (demoEnv 7000) Record reopenedWorld)
     = Inr \<lparr>previousState = Stopped, currentState = Recording, r_videoPath = None,
            r_duration = None,
            r_message = ''Recording started successfully (max duration: 7 minutes)''\<rparr>
   \<and> stopTime (vrs (snd (videoOverlayControl (demoEnv 7000) Record reopenedWorld))) = Some 5000"
  by code_simp

subsection \<open>The path that the status reports\<close>

lemma videoStatus_Inr:
  assumes "fst (videoStatus e w) = Inr st"
  shows "st = statusOf e (vrs w)"
  using assms by (simp add: videoStatus_def split: prod.splits sum.splits)

text \<open>
  C9. The status reports the state of the record, and a null path whenever that state is
  not stopped; a path is reported only in state stopped, where it is the path kept in the
  record. The witness is a running capture: the record holds the path of the file, the
  status reports none.
\<close>

theorem status_videoPath_only_when_stopped:
  assumes "fst (videoStatus e w) = Inr st"
  shows "st_state st = overlayState (vrs w)
       \<and> (st_state st \<noteq> Stopped \<longrightarrow> st_videoPath st = None)
       \<and> (st_state st = Stopped \<longrightarrow> st_videoPath st = videoPath (vrs w))"
  using videoStatus_Inr [OF assms] by (simp add: statusOf_def Let_def)

lemma status_recording: "fst (videoStatus (demoEnv 3000) recordingWorld)
       = Inr (statusOf (demoEnv 3000) (vrs recordingWorld))"
proof -
  have "fst (ensureTab (demoEnv 3000) (ctx recordingWorld)) = Inr ()" by code_simp
  then show ?thesis by (auto simp add: videoStatus_def split: prod.splits sum.splits)
qed

theorem status_videoPath_only_when_stopped_witness:
  "fst (videoStatus (demoEnv 3000) recordingWorld)
       = Inr (statusOf (demoEnv 3000) (vrs recordingWorld))
   \<and> videoPath (vrs recordingWorld) = Some ''/out/overlay-recording-2025-11-29T10-30-00-000Z.webm''
   \<and> st_state (statusOf (demoEnv 3000) (vrs recordingWorld)) = Recording
   \<and> st_videoPath (statusOf (demoEnv 3000) (vrs recordingWorld)) = None"
proof -
  have v: "videoPath (vrs recordingWorld) = Some ''/out/overlay-recording-2025-11-29T10-30-00-000Z.webm''"
    by (simp add: recordingWorld_value)
  have s: "overlayState (vrs recordingWorld) = Recording" by (simp add: recordingWorld_value)
  from status_videoPath_only_when_stopped [OF status_recording] v s status_recording
  show ?thesis by simp
qed

subsection \<open>The elapsed time that the status reports\<close>







subsection \<open>What \<^verbatim>\<open>startVideoRecording\<close> does to the browser\<close>

lemma newPage_ok:
  assumes "newPageOk e"
  shows "fst (newPage e c) = Inr ()
       \<and> tabs (snd (newPage e c)) = tabs c @ [''about:blank'']
       \<and> effects (snd (newPage e c)) = effects c @ [NewPage]
       \<and> browserContextPromise (snd (newPage e c)) = browserContextPromise c
       \<and> videoRecordingEnabled (snd (newPage e c)) = videoRecordingEnabled c
       \<and> videoRecordingOptions (snd (newPage e c)) = videoRecordingOptions c"
  using assms by (simp add: newPage_def onPageCreated_def did_def)

lemma goto_ok:
  assumes "gotoOk e url"
  shows "fst (goto e url c) = Inr ()
       \<and> tabs (snd (goto e url c)) = (tabs c)[length (tabs c) - 1 := url]
       \<and> effects (snd (goto e url c)) = effects c @ [Goto url]
       \<and> browserContextPromise (snd (goto e url c)) = browserContextPromise c
       \<and> videoRecordingEnabled (snd (goto e url c)) = videoRecordingEnabled c
       \<and> videoRecordingOptions (snd (goto e url c)) = videoRecordingOptions c"
  using assms by (simp add: goto_def did_def)

lemma restoreTabs_Cons_ok:
  assumes "fst (newPage e c) = Inr ()" and "fst (goto e url (snd (newPage e c))) = Inr ()"
  shows "restoreTabs e (url # urls) c = restoreTabs e urls (snd (goto e url (snd (newPage e c))))"
  using assms by (simp add: case_prod_unfold)

lemma restoreTabs_ok:
  assumes "newPageOk e" and "\<forall>url \<in> set urls. gotoOk e url"
  shows "fst (restoreTabs e urls c) = Inr ()
       \<and> tabs (snd (restoreTabs e urls c)) = tabs c @ urls
       \<and> effects (snd (restoreTabs e urls c)) = effects c @ recreated urls
       \<and> browserContextPromise (snd (restoreTabs e urls c)) = browserContextPromise c
       \<and> videoRecordingEnabled (snd (restoreTabs e urls c)) = videoRecordingEnabled c
       \<and> videoRecordingOptions (snd (restoreTabs e urls c)) = videoRecordingOptions c"
  using assms
proof (induction urls arbitrary: c)
  case Nil
  then show ?case by (simp add: recreated_def)
next
  case (Cons url urls)
  let ?c1 = "snd (newPage e c)"
  let ?c2 = "snd (goto e url ?c1)"
  note n = newPage_ok [OF Cons.prems(1), of c]
  from Cons.prems(2) have "gotoOk e url" by simp
  note g = goto_ok [OF this, of ?c1]
  have step: "restoreTabs e (url # urls) c = restoreTabs e urls ?c2"
    using n g by (intro restoreTabs_Cons_ok) simp_all
  from Cons.prems have rest: "\<forall>u \<in> set urls. gotoOk e u" by simp
  have t: "tabs ?c2 = tabs c @ [url]" using n g by simp
  have f: "effects ?c2 = effects c @ [NewPage, Goto url]" using n g by simp
  from Cons.IH [OF Cons.prems(1) rest, of ?c2] n g t f show ?case
    unfolding step by (simp add: recreated_def)
qed

lemma fold_onPageCreated:
  "tabs (fold onPageCreated urls c) = tabs c @ urls
   \<and> effects (fold onPageCreated urls c) = effects c
   \<and> browserContextPromise (fold onPageCreated urls c) = browserContextPromise c
   \<and> videoRecordingEnabled (fold onPageCreated urls c) = videoRecordingEnabled c
   \<and> videoRecordingOptions (fold onPageCreated urls c) = videoRecordingOptions c"
  by (induction urls arbitrary: c) (simp_all add: onPageCreated_def)

text \<open>
  C7, as amended. \<^verbatim>\<open>startVideoRecording\<close>, called while recording is not
  enabled and with every call into the browser succeeding: the URLs it records are those of the open tabs that are
  neither empty nor \<^verbatim>\<open>about:blank\<close>; it then closes the browser context if there
  is one, creates a new one with the capture descriptor, and creates one page for each
  recorded URL, in order, each navigated to its URL, or one blank page when no URL was
  recorded. The tabs afterwards are the pages that the factory's context came with and the
  recreated pages.
\<close>

theorem startVideoRecording_recreates:
  assumes "\<not> videoRecordingEnabled c" and "closeOk e" and "createOk e" and "newPageOk e"
      and "\<forall>url \<in> set (tabs c). gotoOk e url"
  shows "fst (startVideoRecording e descriptor c) = Inr ()
       \<and> currentUrls c = filter (\<lambda>url. url \<noteq> [] \<and> url \<noteq> ''about:blank'') (tabs c)
       \<and> effects (snd (startVideoRecording e descriptor c)) =
           effects c @ (if browserContextPromise c = None then [] else [CloseContext])
           @ [CreateContext (Some descriptor)]
           @ (if currentUrls c = [] then [NewPage] else recreated (currentUrls c))
       \<and> tabs (snd (startVideoRecording e descriptor c)) =
           (if browserContextPromise c = None then tabs c else [])
           @ initialPages e @ (if currentUrls c = [] then [''about:blank''] else currentUrls c)
       \<and> browserContextPromise (snd (startVideoRecording e descriptor c))
           = Some (BrowserContext (Some descriptor))"
proof -
  let ?c1 = "c\<lparr>videoRecordingOptions := Some descriptor, videoRecordingEnabled := True\<rparr>"
  define c2 where "c2 = snd (closeBrowserContext e ?c1)"
  have close: "closeBrowserContext e ?c1 = (Inr (), c2)"
    and c2: "tabs c2 = (if browserContextPromise c = None then tabs c else [])"
      "browserContextPromise c2 = None"
      "effects c2 = effects c @ (if browserContextPromise c = None then [] else [CloseContext])"
      "videoRecordingEnabled c2" "videoRecordingOptions c2 = Some descriptor"
    using assms(2) by (simp_all add: c2_def closeBrowserContext_def did_def split: option.split)
  define c3 where "c3 = snd (ensureBrowserContext e c2)"
  have ensure: "ensureBrowserContext e c2 = (Inr (), c3)"
    and c3: "tabs c3 = tabs c2 @ initialPages e"
      "browserContextPromise c3 = Some (BrowserContext (Some descriptor))"
      "effects c3 = effects c2 @ [CreateContext (Some descriptor)]"
    using assms(3) c2
    by (simp_all add: c3_def ensureBrowserContext_def setupBrowserContext_def Let_def did_def
        fold_onPageCreated)
  have urls: "\<forall>url \<in> set (currentUrls c). gotoOk e url"
    using assms(5) by (simp add: currentUrls_def)
  show ?thesis
  proof (cases "currentUrls c = []")
    case True
    with assms(1) close ensure c2 c3 newPage_ok [OF assms(4), of c3] show ?thesis
      by (simp add: startVideoRecording_def Let_def currentUrls_def)
  next
    case False
    with assms(1) close ensure c2 c3 restoreTabs_ok [OF assms(4) urls, of c3] show ?thesis
      by (simp add: startVideoRecording_def Let_def currentUrls_def)
  qed
qed

theorem startVideoRecording_recreates_witness:
  "fst (startVideoRecording (demoEnv 0) sampleDescriptor browsingContext) = Inr ()
   \<and> currentUrls browsingContext = [''https://example.com/a'', ''https://example.com/b'']
   \<and> effects (snd (startVideoRecording (demoEnv 0) sampleDescriptor browsingContext))
       = [CloseContext, CreateContext (Some sampleDescriptor),
          NewPage, Goto ''https://example.com/a'', NewPage, Goto ''https://example.com/b'']
   \<and> tabs (snd (startVideoRecording (demoEnv 0) sampleDescriptor browsingContext))
       = [''https://example.com/a'', ''https://example.com/b'']
   \<and> effects (snd (startVideoRecording (demoEnv 0) sampleDescriptor blankContext))
       = [CloseContext, CreateContext (Some sampleDescriptor), NewPage]
   \<and> tabs (snd (startVideoRecording (demoEnv 0) sampleDescriptor blankContext))
       = [''about:blank'']"
proof -
  have e: "closeOk (demoEnv 0)" "createOk (demoEnv 0)" "newPageOk (demoEnv 0)"
    "initialPages (demoEnv 0) = []" "\<And>url. gotoOk (demoEnv 0) url"
    by (simp_all add: demoEnv_def)
  have b: "\<not> videoRecordingEnabled browsingContext"
    "browserContextPromise browsingContext \<noteq> None" "effects browsingContext = []"
    "currentUrls browsingContext = [''https://example.com/a'', ''https://example.com/b'']"
    by (simp_all add: browsingContext_def currentUrls_def)
  have k: "\<not> videoRecordingEnabled blankContext"
    "browserContextPromise blankContext \<noteq> None" "effects blankContext = []"
    "currentUrls blankContext = []"
    by (simp_all add: blankContext_def currentUrls_def)
  from startVideoRecording_recreates [OF b(1) e(1-3), of sampleDescriptor]
    startVideoRecording_recreates [OF k(1) e(1-3), of sampleDescriptor] e b k
  show ?thesis by (simp add: recreated_def)
qed

text \<open>
  C7, as the claim states it for every invocation, fails while recording is enabled: the
  function throws "Video recording is already enabled." at its first line and does nothing
  to the browser. The sample is the context left by a timeout whose browser context did
  not close; there a resume action makes this call and throws this error.
\<close>

theorem startVideoRecording_when_enabled:
  "videoRecordingEnabled (ctx unclosedWorld)
   \<and> startVideoRecording (demoEnv 9500) sampleDescriptor (ctx unclosedWorld)
       = (Inl VideoRecordingAlreadyEnabled, ctx unclosedWorld)
   \<and> fst (videoOverlayControl (demoEnv 9500) Resume unclosedWorld)
       = Inl VideoRecordingAlreadyEnabled"
proof -
  have a: "videoRecordingEnabled (ctx unclosedWorld)" by code_simp
  have b: "fst (videoOverlayControl (demoEnv 9500) Resume unclosedWorld)
       = Inl VideoRecordingAlreadyEnabled" by code_simp
  from a b show ?thesis by (simp add: startVideoRecording_def)
qed

subsection \<open>The idle state in reachable histories\<close>

text \<open>
  The enable handler, the control handler (unless a record action issued during a capture
  fails), the timeout and the status handler keep the invariant about the idle state.
\<close>

lemma idleInv_initial: "idleInv (vrs initialWorld)"
  by (simp add: idleInv_def initialWorld_def initialState_def)

lemma vrs_autoStop_autoStopped: "vrs (autoStop e w) = autoStopped e (vrs w)"
  by (simp add: vrs_autoStop autoStopped_def)

lemma vrs_autoStartRecording:
  "vrs (snd (autoStartRecording e position sid w)) =
     (if isl (fst (autoStartRecording e position sid w)) then autoStopped e (vrs w)
      else started e (nextTimer w) (autoStopped e (vrs w)))"
  using vrs_startNewRecording [of e position "Some sid" "autoStop e w"]
    nextTimer_startNewRecording [of e position "Some sid" "autoStop e w"]
  by (auto simp add: autoStartRecording_def vrs_autoStop_autoStopped started_def vrs_updateOverlayState
      vrs_startRecordingTimeout nextTimer_autoStop
      split: prod.split sum.split)

lemma autoStartRecording_Inr:
  assumes "\<not> isl (fst (autoStartRecording e position sid w))"
  shows "outputFile e (recordingFilename e) \<noteq> None"
  using assms startNewRecording_Inr [of e position "Some sid" "autoStop e w"]
  by (auto simp add: autoStartRecording_def split: prod.splits sum.splits)

lemma vrs_enableOverlay:
  "vrs (snd (enableOverlay e position sid c1 w)) =
     (vrs w)\<lparr>overlayEnabled := True, overlayPosition := position,
              overlayState := Idle, sessionId := Some sid\<rparr>"
  by (simp add: enableOverlay_def Let_def split: sum.split prod.split)

lemma nextTimer_enableOverlay:
  "nextTimer (snd (enableOverlay e position sid c1 w)) = nextTimer w"
  by (simp add: enableOverlay_def Let_def split: sum.split prod.split)

lemma idleInv_enableOverlay:
  assumes "idleInv (vrs w)" and "\<not> overlayEnabled (vrs w)"
  shows "idleInv (vrs (snd (enableOverlay e position sid c1 w)))"
  using assms by (simp add: vrs_enableOverlay idleInv_def)

lemma idleInv_autoStartRecording:
  assumes "idleInv (vrs w)" and "overlayEnabled (vrs w)" and "\<not> isRecording (vrs w)"
  shows "idleInv (vrs (snd (autoStartRecording e position sid w)))"
  using assms by (simp add: vrs_autoStartRecording idleInv_def autoStopped_def started_def)

lemma idleInv_enable:
  assumes "idleInv (vrs w)"
  shows "idleInv (vrs (snd (videoOverlayEnable e pos auto w)))"
proof (cases "overlayEnabled (vrs w)")
  case True
  with assms show ?thesis by (simp add: videoOverlayEnable_def)
next
  case False
  with assms have idle: "\<not> isRecording (vrs w)" by (simp add: idleInv_def split: if_splits)
  have a: "idleInv (vrs (snd (enableOverlay e position sid c1 w)))" for position sid c1
    by (rule idleInv_enableOverlay [OF assms False])
  have b: "idleInv (vrs (snd (autoStartRecording e position sid
                                (snd (enableOverlay e position sid c1 w)))))" for position sid c1
    by (rule idleInv_autoStartRecording [OF a])
       (simp_all add: vrs_enableOverlay idle)
  from assms False a b show ?thesis
    by (simp add: videoOverlayEnable_def Let_def case_prod_unfold split: sum.split)
qed

lemma control_rejected:
  assumes "isl (fst (videoOverlayControl e action w))"
  shows "vrs (snd (videoOverlayControl e action w)) = vrs w
       \<or> (action = Record \<and> vrs (snd (videoOverlayControl e action w)) = autoStopped e (vrs w))
       \<or> ((action = Pause \<or> action = Stop) \<and> overlayState (vrs w) \<noteq> Idle
           \<and> vrs (snd (videoOverlayControl e action w)) = (vrs w)\<lparr>recordingTimeout := None\<rparr>)"
proof (cases "overlayEnabled (vrs w)
    \<and> \<not> isl (currentTabOrDie (ctx w))
    \<and> \<not> isl (validateStateTransition True (overlayState (vrs w)) (targetState action) action)")
  case False
  then show ?thesis
    by (auto simp add: videoOverlayControl_def Let_def split: sum.splits)
next
  case True
  then have eq: "videoOverlayControl e action w =
           (case action of
              Record \<Rightarrow> recordHandler e (overlayState (vrs w)) w
            | Pause \<Rightarrow> pauseHandler e (overlayState (vrs w)) w
            | Resume \<Rightarrow> resumeHandler e (overlayState (vrs w)) w
            | Stop \<Rightarrow> stopHandler e (overlayState (vrs w)) w)"
    by (auto simp add: videoOverlayControl_def Let_def split: sum.splits)
  from True have v: "decision (overlayState (vrs w)) action = None"
    by (auto simp add: decision_def split: sum.splits)
  show ?thesis
  proof (cases action)
    case Record
    with assms eq show ?thesis
      by (auto simp add: vrs_recordHandler vrs_autoStop_autoStopped split: sum.splits)
  next
    case Pause
    with v have "overlayState (vrs w) \<noteq> Idle" by (simp add: accepted_iff)
    with Pause assms eq show ?thesis
      by (auto simp add: vrs_pauseHandler split: sum.splits)
  next
    case Resume
    with assms eq show ?thesis
      by (auto simp add: vrs_resumeHandler split: sum.splits)
  next
    case Stop
    with v have "overlayState (vrs w) \<noteq> Idle" by (simp add: accepted_iff)
    with Stop assms eq show ?thesis
      by (auto simp add: vrs_stopHandler split: sum.splits)
  qed
qed

lemma control_accepted:
  assumes "\<not> isl (fst (videoOverlayControl e action w))"
  shows "overlayEnabled (vrs w) \<and> overlayState (vrs (snd (videoOverlayControl e action w))) \<noteq> Idle"
proof -
  from assms obtain r where r: "fst (videoOverlayControl e action w) = Inr r"
    by (cases "fst (videoOverlayControl e action w)") simp_all
  note c = control_Inr [OF r]
  show ?thesis
  proof (cases action)
    case Record
    with r c show ?thesis by (simp add: vrs_recordHandler)
  next
    case Pause
    with r c show ?thesis by (simp add: vrs_pauseHandler)
  next
    case Resume
    with r c show ?thesis by (simp add: vrs_resumeHandler)
  next
    case Stop
    with r c show ?thesis by (simp add: vrs_stopHandler)
  qed
qed

lemma idleInv_control:
  assumes "idleInv (vrs w)"
      and "action = Record \<and> isRecording (vrs w) \<longrightarrow> \<not> isl (fst (videoOverlayControl e action w))"
  shows "idleInv (vrs (snd (videoOverlayControl e action w)))"
proof (cases "isl (fst (videoOverlayControl e action w))")
  case True
  with assms(2) have nr: "action = Record \<longrightarrow> \<not> isRecording (vrs w)" by blast
  from control_rejected [OF True] assms(1) nr show ?thesis
    by (auto simp add: idleInv_def autoStopped_def split: if_splits)
next
  case False
  from control_accepted [OF False] identity_videoOverlayControl [of e action w]
  show ?thesis by (simp add: idleInv_def identity_def)
qed

lemma idleInv_timeoutFired:
  assumes "idleInv (vrs w)"
  shows "idleInv (vrs (timeoutFired e t w))"
  using assms
  by (auto simp add: timeoutFired_def Let_def vrs_stopRecordingInternal idleInv_def split: if_splits)

lemma vrs_videoStatus: "vrs (snd (videoStatus e w)) = vrs w"
  by (simp add: videoStatus_def split: prod.split sum.split)

lemma idleInv_exec:
  assumes "idleInv (vrs w)" and "startsSucceed w h"
  shows "idleInv (vrs (exec w h))"
  using assms
proof (induction h arbitrary: w)
  case Nil
  then show ?case by (simp add: exec_def)
next
  case (Cons x h)
  obtain e ev where x: "x = (e, ev)" by (cases x)
  have "idleInv (vrs (step w (e, ev)))"
  proof (cases ev)
    case (Enable pos auto)
    with Cons.prems(1) show ?thesis by (simp add: idleInv_enable)
  next
    case (Control action)
    with Cons.prems x show ?thesis by (simp add: idleInv_control)
  next
    case (TimeoutFired t)
    with Cons.prems(1) show ?thesis by (simp add: idleInv_timeoutFired)
  next
    case StatusQuery
    with Cons.prems(1) show ?thesis by (simp add: vrs_videoStatus)
  qed
  moreover from Cons.prems(2) x have "startsSucceed (step w (e, ev)) h" by simp
  ultimately have "idleInv (vrs (exec (step w (e, ev)) h))" by (rule Cons.IH)
  then show ?case by (simp add: exec_def x)
qed

text \<open>
  C3, as amended. In every history in which no record action issued during a capture
  fails, whenever the state is idle the path and the start time are null.
\<close>

theorem idle_has_no_capture:
  assumes "startsSucceed initialWorld h"
      and "overlayState (vrs (exec initialWorld h)) = Idle"
  shows "videoPath (vrs (exec initialWorld h)) = None
       \<and> startTime (vrs (exec initialWorld h)) = None"
  using idleInv_exec [OF idleInv_initial assms(1)] assms(2)
  by (simp add: idleInv_def)

lemma exec_failedStart:
  "exec initialWorld failedStart
     = snd (videoOverlayControl ((demoEnv 2000)\<lparr>createOk := False\<rparr>) Record enabledWorld)"
  by (simp add: failedStart_def enabledWorld_def exec_def)

theorem idle_has_no_capture_witness:
  "startsSucceed initialWorld failedStart
   \<and> fst (videoOverlayControl ((demoEnv 2000)\<lparr>createOk := False\<rparr>) Record enabledWorld)
       = Inl (EnvFailure ''createContext'')
   \<and> overlayState (vrs (exec initialWorld failedStart)) = Idle
   \<and> videoPath (vrs (exec initialWorld failedStart)) = None
   \<and> startTime (vrs (exec initialWorld failedStart)) = None"
proof -
  have a: "\<not> isRecording (vrs initialWorld)"
    by (simp add: initialWorld_def initialState_def)
  have b: "\<not> isRecording (vrs enabledWorld)" by (simp add: enabledWorld_value)
  have "step initialWorld (demoEnv 1000, Enable None None) = enabledWorld"
    by (simp add: enabledWorld_def exec_def)
  with a b have h: "startsSucceed initialWorld failedStart" by (simp add: failedStart_def)
  have f: "fst (videoOverlayControl ((demoEnv 2000)\<lparr>createOk := False\<rparr>) Record enabledWorld)
       = Inl (EnvFailure ''createContext'')" by code_simp
  have i: "overlayState (vrs (exec initialWorld failedStart)) = Idle"
    unfolding exec_failedStart by code_simp
  from idle_has_no_capture [OF h i] h f i show ?thesis by simp
qed

text \<open>
  C3, as the claim states it, fails. A record action during a capture stops the capture,
  sets the state to idle and then starts the new capture; when that start fails (here the
  new browser context cannot be created) the handler throws and the record stays in state
  idle with the start time and the path of the capture before.
\<close>

theorem failed_restart_is_idle_with_capture:
  "overlayState (vrs (exec initialWorld failedRestart)) = Idle
   \<and> startTime (vrs (exec initialWorld failedRestart)) = Some 2000
   \<and> videoPath (vrs (exec initialWorld failedRestart))
       = Some ''/out/overlay-recording-2025-11-29T10-30-00-000Z.webm''"
proof -
  have "exec initialWorld failedRestart
     = snd (videoOverlayControl ((demoEnv 3000)\<lparr>createOk := False\<rparr>) Record recordingWorld)"
    by (simp add: failedRestart_def recordingWorld_def enabledWorld_def exec_def)
  then show ?thesis by code_simp
qed

subsection \<open>The pending timer in reachable histories\<close>

text \<open>
  Every handler keeps the invariant about the timers, so after any history at most one
  timer is pending, and it is the timer of the running capture.
\<close>

lemma timerInv_cleared:
  assumes "timerInv w"
  shows "(case recordingTimeout (vrs w) of None \<Rightarrow> timers w | Some t \<Rightarrow> removeAll t (timers w)) = []"
  using assms by (auto simp add: timerInv_def map_eq_Cons_conv split: option.splits)

lemma timerInv_idle:
  assumes "timerInv w" and "\<not> isRecording (vrs w)"
  shows "timers w = []"
  using assms by (auto simp add: timerInv_def)

lemma control_pass:
  assumes "overlayEnabled (vrs w)" and "\<not> isl (currentTabOrDie (ctx w))"
      and "\<not> isl (validateStateTransition True (overlayState (vrs w)) (targetState action) action)"
  shows "videoOverlayControl e action w =
           (case action of
              Record \<Rightarrow> recordHandler e (overlayState (vrs w)) w
            | Pause \<Rightarrow> pauseHandler e (overlayState (vrs w)) w
            | Resume \<Rightarrow> resumeHandler e (overlayState (vrs w)) w
            | Stop \<Rightarrow> stopHandler e (overlayState (vrs w)) w)"
  using assms by (auto simp add: videoOverlayControl_def Let_def split: sum.splits)

lemma control_block:
  assumes "\<not> (overlayEnabled (vrs w) \<and> \<not> isl (currentTabOrDie (ctx w))
      \<and> \<not> isl (validateStateTransition True (overlayState (vrs w)) (targetState action) action))"
  shows "snd (videoOverlayControl e action w) = w"
  using assms by (auto simp add: videoOverlayControl_def Let_def split: sum.splits)

lemma timers_pauseHandler:
  "timers (snd (pauseHandler e prev w)) =
     (case recordingTimeout (vrs w) of None \<Rightarrow> timers w | Some t \<Rightarrow> removeAll t (timers w))"
  by (simp add: pauseHandler_def Let_def timers_clearRecordingTimeout timers_markStopped
      split: prod.split sum.split option.split)

lemma timers_stopHandler:
  "timers (snd (stopHandler e prev w)) =
     (case recordingTimeout (vrs w) of None \<Rightarrow> timers w | Some t \<Rightarrow> removeAll t (timers w))"
  by (simp add: stopHandler_def Let_def timers_clearRecordingTimeout timers_markStopped
      split: prod.split sum.split option.split)

lemma timers_recordHandler_failed:
  assumes "isl (fst (recordHandler e prev w))"
  shows "timers (snd (recordHandler e prev w)) = timers (autoStop e w)"
  using assms
    timers_startNewRecording [of e "overlayPosition (vrs (autoStop e w))"
      "sessionId (vrs (autoStop e w))" "autoStop e w"]
  by (auto simp add: recordHandler_def Let_def split: prod.splits sum.splits)

lemma timers_resumeHandler_failed:
  assumes "isl (fst (resumeHandler e prev w))"
  shows "timers (snd (resumeHandler e prev w)) = timers w"
  using assms
    timers_startNewRecording [of e "overlayPosition (vrs w)" "sessionId (vrs w)" w]
  by (auto simp add: resumeHandler_def Let_def split: prod.splits sum.splits)

lemma timerInv_recordHandler:
  assumes "timerInv w"
  shows "timerInv (snd (recordHandler e prev w))"
proof (cases "fst (recordHandler e prev w)")
  case (Inl err)
  then have "timers (snd (recordHandler e prev w)) = timers (autoStop e w)"
    by (simp add: timers_recordHandler_failed)
  with timerInv_cleared [OF assms] timerInv_idle [OF assms] show ?thesis
    by (simp add: timerInv_def timers_autoStop)
next
  case (Inr r)
  from timers_recordHandler [OF Inr] timerInv_cleared [OF assms] Inr show ?thesis
    by (simp add: timerInv_def vrs_recordHandler)
qed

lemma timerInv_resumeHandler:
  assumes "timerInv w"
  shows "timerInv (snd (resumeHandler e prev w))"
proof (cases "fst (resumeHandler e prev w)")
  case (Inl err)
  with assms show ?thesis
    by (simp add: timerInv_def timers_resumeHandler_failed vrs_resumeHandler)
next
  case (Inr r)
  from timers_resumeHandler [OF Inr] timerInv_cleared [OF assms] Inr show ?thesis
    by (simp add: timerInv_def vrs_resumeHandler)
qed

lemma timerInv_control:
  assumes "timerInv w"
  shows "timerInv (snd (videoOverlayControl e action w))"
proof (cases "overlayEnabled (vrs w) \<and> \<not> isl (currentTabOrDie (ctx w))
      \<and> \<not> isl (validateStateTransition True (overlayState (vrs w)) (targetState action) action)")
  case False
  with assms show ?thesis by (simp add: control_block)
next
  case True
  then have eq: "videoOverlayControl e action w =
           (case action of
              Record \<Rightarrow> recordHandler e (overlayState (vrs w)) w
            | Pause \<Rightarrow> pauseHandler e (overlayState (vrs w)) w
            | Resume \<Rightarrow> resumeHandler e (overlayState (vrs w)) w
            | Stop \<Rightarrow> stopHandler e (overlayState (vrs w)) w)"
    by (intro control_pass) simp_all
  show ?thesis
  proof (cases action)
    case Record
    with eq assms show ?thesis by (simp add: timerInv_recordHandler)
  next
    case Pause
    with eq timerInv_cleared [OF assms] show ?thesis
      by (simp add: timerInv_def timers_pauseHandler)
  next
    case Resume
    with eq assms show ?thesis by (simp add: timerInv_resumeHandler)
  next
    case Stop
    with eq timerInv_cleared [OF assms] show ?thesis
      by (simp add: timerInv_def timers_stopHandler)
  qed
qed

lemma timers_enableOverlay: "timers (snd (enableOverlay e position sid c1 w)) = timers w"
  by (simp add: enableOverlay_def Let_def split: sum.split prod.split)

lemma timerInv_enableOverlay:
  assumes "timerInv w"
  shows "timerInv (snd (enableOverlay e position sid c1 w))"
  using assms by (simp add: timerInv_def timers_enableOverlay vrs_enableOverlay)

lemma timers_autoStartRecording:
  "timers (snd (autoStartRecording e position sid w)) =
     (if isl (fst (autoStartRecording e position sid w)) then timers (autoStop e w)
      else (case recordingTimeout (vrs (autoStop e w)) of
              None \<Rightarrow> timers (autoStop e w)
            | Some t \<Rightarrow> removeAll t (timers (autoStop e w))) @ [nextTimer w])"
  using timers_startNewRecording [of e position "Some sid" "autoStop e w"]
    nextTimer_startNewRecording [of e position "Some sid" "autoStop e w"]
    recordingTimeout_startNewRecording [of e position "Some sid" "autoStop e w"]
  by (auto simp add: autoStartRecording_def timers_updateOverlayState
      timers_startRecordingTimeout nextTimer_autoStop
      split: prod.split sum.split cong: option.case_cong)

lemma timerInv_autoStartRecording:
  assumes "timerInv w"
  shows "timerInv (snd (autoStartRecording e position sid w))"
  using timerInv_cleared [OF assms] timerInv_idle [OF assms]
  by (simp add: timerInv_def timers_autoStartRecording timers_after_autoStop
      vrs_autoStartRecording started_def timers_autoStop)

lemma timerInv_enable:
  assumes "timerInv w"
  shows "timerInv (snd (videoOverlayEnable e pos auto w))"
proof -
  have a: "timerInv (snd (enableOverlay e position sid c1 w))" for position sid c1
    by (rule timerInv_enableOverlay [OF assms])
  have b: "timerInv (snd (autoStartRecording e position sid
                            (snd (enableOverlay e position sid c1 w))))" for position sid c1
    by (rule timerInv_autoStartRecording [OF a])
  have c: "timerInv (w\<lparr>ctx := c1\<rparr>)" for c1
    using assms by (simp add: timerInv_def)
  from assms a b c show ?thesis
    by (simp add: videoOverlayEnable_def Let_def case_prod_unfold split: sum.split)
qed

lemma timerInv_timeoutFired:
  assumes "timerInv w"
  shows "timerInv (timeoutFired e t w)"
  using assms
  by (auto simp add: timerInv_def timeoutFired_def Let_def timers_stopRecordingInternal
      map_eq_Cons_conv split: option.splits)

lemma timerInv_videoStatus:
  assumes "timerInv w"
  shows "timerInv (snd (videoStatus e w))"
  using assms by (simp add: timerInv_def videoStatus_def split: prod.split sum.split)

lemma timerInv_exec:
  assumes "timerInv w"
  shows "timerInv (exec w h)"
  using assms
proof (induction h arbitrary: w)
  case Nil
  then show ?case by (simp add: exec_def)
next
  case (Cons x h)
  obtain e ev where x: "x = (e, ev)" by (cases x)
  have "timerInv (step w (e, ev))"
    using Cons.prems
    by (cases ev)
       (simp_all add: timerInv_enable timerInv_control timerInv_timeoutFired timerInv_videoStatus)
  then have "timerInv (exec (step w (e, ev)) h)" by (rule Cons.IH)
  then show ?case by (simp add: exec_def x)
qed

lemma pending_timer:
  assumes "t \<in> set (timers (exec initialWorld h))"
  shows "isRecording (vrs (exec initialWorld h)) \<and> contextRef (vrs (exec initialWorld h))
       \<and> recordingTimeout (vrs (exec initialWorld h)) = Some t
       \<and> timers (exec initialWorld h) = [t]"
proof -
  have "timerInv initialWorld" by (simp add: timerInv_def initialWorld_def)
  then have "timerInv (exec initialWorld h)" by (rule timerInv_exec)
  with assms show ?thesis by (auto simp add: timerInv_def map_eq_Cons_conv)
qed

lemma recordingWorld_history:
  "recordingWorld = exec initialWorld [(demoEnv 1000, Enable None None), (demoEnv 2000, Control Record)]"
  by (simp add: recordingWorld_def enabledWorld_def exec_def)

subsection \<open>The timeout with a failing finalization\<close>

text \<open>
  C8. Whenever a timer fires, after any history, the record ends in state stopped, with
  \<open>isRecording\<close> false and the stop time set, whatever the environment answers: also
  when the video path cannot be read or the browser context does not close. The callback
  gives no error to anyone: the helper catches it. The witness is a capture whose browser
  context does not close.
\<close>

theorem watchdog_forces_stopped:
  assumes "t \<in> set (timers (exec initialWorld h))"
  shows "overlayState (vrs (timeoutFired e t (exec initialWorld h))) = Stopped
         \<and> \<not> isRecording (vrs (timeoutFired e t (exec initialWorld h)))
         \<and> stopTime (vrs (timeoutFired e t (exec initialWorld h))) = Some (now e)
         \<and> recordingTimeout (vrs (timeoutFired e t (exec initialWorld h))) = None
         \<and> timers (timeoutFired e t (exec initialWorld h)) = []"
  using assms pending_timer [OF assms]
  by (simp add: timeoutFired_def Let_def vrs_stopRecordingInternal timers_stopRecordingInternal)

theorem watchdog_forces_stopped_witness:
  "0 \<in> set (timers recordingWorld)
   \<and> fst (stopVideoRecording ((demoEnv 9000)\<lparr>closeOk := False\<rparr>) (ctx recordingWorld))
       = Inl (EnvFailure ''close'')
   \<and> overlayState (vrs (timeoutFired ((demoEnv 9000)\<lparr>closeOk := False\<rparr>) 0 recordingWorld))
       = Stopped
   \<and> \<not> isRecording (vrs (timeoutFired ((demoEnv 9000)\<lparr>closeOk := False\<rparr>) 0 recordingWorld))
   \<and> stopTime (vrs (timeoutFired ((demoEnv 9000)\<lparr>closeOk := False\<rparr>) 0 recordingWorld))
       = Some 9000"
proof -
  have h1: "0 \<in> set (timers recordingWorld)" by (simp add: recordingWorld_value)
  have h4: "fst (stopVideoRecording ((demoEnv 9000)\<lparr>closeOk := False\<rparr>) (ctx recordingWorld))
       = Inl (EnvFailure ''close'')" by code_simp
  have h5: "now ((demoEnv 9000)\<lparr>closeOk := False\<rparr>) = 9000" by (simp add: demoEnv_def)
  from watchdog_forces_stopped [OF h1 [unfolded recordingWorld_history],
      of "(demoEnv 9000)\<lparr>closeOk := False\<rparr>", folded recordingWorld_history] h1 h4 h5
  show ?thesis by simp
qed

subsection \<open>The timeout and the manual stop\<close>





end
